theory Spec2Isabelle
  imports Main "HOL-Library.AList" "HOL-Library.Multiset"
begin

section \<open>JSON values and the FJsonObject accessors\<close>

text \<open>
  The importer reads the export table through the engine's \<open>FJsonObject\<close> and
  \<open>FJsonValue\<close>. A JSON object is an association list read with \<open>map_of\<close>; keys are
  compared as strings. Numbers are integers here: the engine's conversion of a JSON
  double to \<open>float\<close> or \<open>int32\<close> is not modelled. A typed accessor succeeds on a
  value of its own JSON type; the engine's coercions between JSON types (a number read
  as a string) are not modelled. An \<open>FName\<close> is its string, and \<open>NAME_None\<close> the
  empty one.
\<close>

datatype json =
    JNull
  | JBool bool
  | JNum int
  | JStr string
  | JArr "json list"
  | JObj "(string \<times> json) list"

type_synonym FJsonObject = "(string \<times> json) list"

type_synonym FName = string

definition NAME_None :: FName where
  "NAME_None = []"

definition TryGetField :: "FJsonObject \<Rightarrow> string \<Rightarrow> json option" where
  "TryGetField obj FieldName = map_of obj FieldName"

definition IsNull :: "json \<Rightarrow> bool" where
  "IsNull v = (case v of JNull \<Rightarrow> True | _ \<Rightarrow> False)"

text \<open>\<open>FJsonValue::AsObject\<close> on a value that is no object returns the empty object.\<close>

definition AsObject :: "json \<Rightarrow> FJsonObject" where
  "AsObject v = (case v of JObj obj \<Rightarrow> obj | _ \<Rightarrow> [])"

definition TryGetObjectField :: "FJsonObject \<Rightarrow> string \<Rightarrow> FJsonObject option" where
  "TryGetObjectField obj FieldName =
     (case map_of obj FieldName of Some (JObj sub) \<Rightarrow> Some sub | _ \<Rightarrow> None)"

definition TryGetStringField :: "FJsonObject \<Rightarrow> string \<Rightarrow> string option" where
  "TryGetStringField obj FieldName =
     (case map_of obj FieldName of Some (JStr s) \<Rightarrow> Some s | _ \<Rightarrow> None)"

definition TryGetNumberField :: "FJsonObject \<Rightarrow> string \<Rightarrow> int option" where
  "TryGetNumberField obj FieldName =
     (case map_of obj FieldName of Some (JNum n) \<Rightarrow> Some n | _ \<Rightarrow> None)"

definition TryGetBoolField :: "FJsonObject \<Rightarrow> string \<Rightarrow> bool option" where
  "TryGetBoolField obj FieldName =
     (case map_of obj FieldName of Some (JBool b) \<Rightarrow> Some b | _ \<Rightarrow> None)"

definition TryGetArrayField :: "FJsonObject \<Rightarrow> string \<Rightarrow> json list option" where
  "TryGetArrayField obj FieldName =
     (case map_of obj FieldName of Some (JArr vs) \<Rightarrow> Some vs | _ \<Rightarrow> None)"

text \<open>The \<open>Get...Field\<close> accessors return the empty value when the field is missing.\<close>

definition GetStringField :: "FJsonObject \<Rightarrow> string \<Rightarrow> string" where
  "GetStringField obj FieldName =
     (case TryGetStringField obj FieldName of Some s \<Rightarrow> s | None \<Rightarrow> [])"

definition GetObjectField :: "FJsonObject \<Rightarrow> string \<Rightarrow> FJsonObject" where
  "GetObjectField obj FieldName =
     (case TryGetObjectField obj FieldName of Some sub \<Rightarrow> sub | None \<Rightarrow> [])"

text \<open>
  \<open>FString::Split(InS, &Left, nullptr)\<close> with a one-character separator: the part
  before the first occurrence, or nothing written to \<open>Left\<close> when there is none.
\<close>

definition Split_Left :: "string \<Rightarrow> char \<Rightarrow> string" where
  "Split_Left s c = (if c \<in> set s then takeWhile (\<lambda>x. x \<noteq> c) s else [])"


text \<open>
  The statement \<open>if (T v; Json->TryGetXField("Key", v)) target.member = v;\<close>: the
  assignment is made when the accessor succeeds.
\<close>

definition assign_if :: "'a option \<Rightarrow> ('a \<Rightarrow> 's \<Rightarrow> 's) \<Rightarrow> 's \<Rightarrow> 's" where
  "assign_if got assign target = (case got of Some v \<Rightarrow> assign v target | None \<Rightarrow> target)"


section \<open>The importer's surroundings\<close>

text \<open>
  What the two source files use and do not define: the importer's members
  (\<open>AllJsonObjects\<close>, \<open>IgnoredExpressions\<close>, \<open>Expressions\<close>), functions of the
  repository declared elsewhere (\<open>FilterExportsByOuter\<close>, \<open>GetExportNameOfSubobject\<close>,
  \<open>LoadObject\<close>, \<open>HandleReference\<close>) and the engine (\<open>FindObject<UClass>\<close>, the class
  hierarchy behind \<open>Cast\<close>, \<open>UEnum::GetValueByNameString\<close>, the capacity
  \<open>EMaterialQualityLevel::Num\<close> of \<open>UMaterialExpressionQualitySwitch::Inputs\<close>). They
  are parameters of the model, collected in one record. \<open>'w\<close> is the state of the
  asset registry; \<open>LoadObject\<close> gets the JSON reference and the member it writes to
  and returns the member's new content, and both it and \<open>HandleReference\<close> may change
  the registry. A loaded asset is named by a string.
\<close>

record 'w Host =
  AllJsonObjects :: "json list"
  FilterExportsByOuter :: "string \<Rightarrow> json list"
  IgnoredExpressions :: "string list"
  Expressions :: "string list"
  GetExportNameOfSubobject :: "string \<Rightarrow> FName"
  FindObject_UClass :: "string \<Rightarrow> bool"
  IsA :: "string \<Rightarrow> string \<Rightarrow> bool"
  QualityLevel_Num :: nat
  GetValueByNameString :: "string \<Rightarrow> string \<Rightarrow> int"
  LoadObject :: "FJsonObject \<Rightarrow> string option \<Rightarrow> 'w \<Rightarrow> string option \<times> 'w"
  HandleReference :: "string \<Rightarrow> 'w \<Rightarrow> bool \<times> 'w"


section \<open>Partition: FindEditorOnlyData\<close>

record FImportData =
  Type :: FName
  Outer :: FName
  Json :: FJsonObject

text \<open>
  \<open>TMap::Add\<close> replaces the value of a key that is present and appends a new key
  otherwise: \<open>AList.update\<close>. The loop body of lines 138-151, with the three results
  (the returned \<open>EditorOnlyData\<close> and the out-parameters \<open>OutExports\<close>,
  \<open>ExpressionNames\<close>) as accumulator.
\<close>

fun FindEditorOnlyData_loop ::
  "string \<Rightarrow> string \<Rightarrow> json list
    \<Rightarrow> FJsonObject option \<times> (FName \<times> FImportData) list \<times> FName list
    \<Rightarrow> FJsonObject option \<times> (FName \<times> FImportData) list \<times> FName list" where
  "FindEditorOnlyData_loop aType aOuter [] acc = acc"
| "FindEditorOnlyData_loop aType aOuter (Value # rest) (EditorOnlyData, OutExports, ExpressionNames) =
     (let Object = AsObject Value;
          ExType = GetStringField Object ''Type'';
          Name = GetStringField Object ''Name''
      in if ExType = aType @ ''EditorOnlyData''
         then FindEditorOnlyData_loop aType aOuter rest (Some Object, OutExports, ExpressionNames)
         else FindEditorOnlyData_loop aType aOuter rest
                (EditorOnlyData,
                 AList.update Name \<lparr>Type = ExType, Outer = aOuter, Json = Object\<rparr> OutExports,
                 ExpressionNames @ [Name]))"

definition FindEditorOnlyData ::
  "'w Host \<Rightarrow> string \<Rightarrow> string \<Rightarrow> (FName \<times> FImportData) list \<Rightarrow> FName list \<Rightarrow> bool
    \<Rightarrow> FJsonObject option \<times> (FName \<times> FImportData) list \<times> FName list" where
  "FindEditorOnlyData E aType aOuter OutExports ExpressionNames bFilterByOuter =
     FindEditorOnlyData_loop aType aOuter
       (if bFilterByOuter then FilterExportsByOuter E aOuter else AllJsonObjects E)
       (None, OutExports, ExpressionNames)"

section \<open>Expression inputs\<close>

text \<open>
  \<open>'p\<close> is the type of a pointer to a \<open>UMaterialExpression\<close>; \<open>None\<close> is
  \<open>nullptr\<close>. \<open>FExpressionInput_ctor\<close> is the default constructor
  \<open>FExpressionInput()\<close>. \<open>FColorMaterialInput\<close>, \<open>FScalarMaterialInput\<close> and
  \<open>FVectorMaterialInput\<close> extend \<open>FExpressionInput\<close> by \<open>UseConstant\<close> and
  \<open>Constant\<close>; the literal is kept as the JSON value it is decoded from.
\<close>

record 'p FExpressionInput =
  Expression :: "'p option"
  OutputIndex :: int
  InputName :: FName
  Mask :: int
  MaskR :: int
  MaskG :: int
  MaskB :: int
  MaskA :: int

record 'p FMaterialInput = "'p FExpressionInput" +
  UseConstant :: bool
  Constant :: json

definition FExpressionInput_ctor :: "'p FExpressionInput" where
  "FExpressionInput_ctor =
     \<lparr>Expression = None, OutputIndex = 0, InputName = NAME_None,
      Mask = 0, MaskR = 0, MaskG = 0, MaskB = 0, MaskA = 0\<rparr>"

text \<open>
  The default arguments of \<open>GetExpressionName\<close> and \<open>PopulateExpressionInput\<close> are
  declared in the header; every call in the file leaves them out.
\<close>

definition OverrideParameterName_default :: string where
  "OverrideParameterName_default = ''Expression''"

definition Type_default :: string where
  "Type_default = ''Default''"

text \<open>Lines 2951-2966.\<close>

definition GetExpressionName :: "'w Host \<Rightarrow> FJsonObject \<Rightarrow> string \<Rightarrow> FName" where
  "GetExpressionName E JsonProperties OverrideParameterName =
     (case TryGetField JsonProperties OverrideParameterName of
        None \<Rightarrow> GetStringField JsonProperties ''ExpressionName''
      | Some ExpressionField \<Rightarrow>
          if IsNull ExpressionField then GetStringField JsonProperties ''ExpressionName''
          else (case TryGetStringField (AsObject ExpressionField) ''ObjectName'' of
                  Some ObjectName \<Rightarrow> GetExportNameOfSubobject E ObjectName
                | None \<Rightarrow> NAME_None))"

text \<open>
  Lines 2883-2930. \<open>reinterpret_cast\<close> makes the local \<open>Input\<close> readable as the
  derived struct, whose two members lie behind it; the copy
  \<open>Input = FExpressionInput(*ColorInput)\<close> takes the base part only
  (\<open>FExpressionInput.truncate\<close>).
\<close>

definition reinterpret_MaterialInput :: "'p FExpressionInput \<Rightarrow> 'p FMaterialInput" where
  "reinterpret_MaterialInput In =
     FExpressionInput.extend In (FMaterialInput.fields False JNull)"

definition PopulateExpressionInput :: "FJsonObject \<Rightarrow> 'p \<Rightarrow> string \<Rightarrow> 'p FExpressionInput" where
  "PopulateExpressionInput JsonProperties Expr aType =
     (let In = FExpressionInput_ctor\<lparr>Expression := Some Expr\<rparr>;
          In = assign_if (TryGetNumberField JsonProperties ''OutputIndex'')
                 (\<lambda>v t. t\<lparr>OutputIndex := v\<rparr>) In;
          In = assign_if (TryGetStringField JsonProperties ''InputName'')
                 (\<lambda>v t. t\<lparr>InputName := v\<rparr>) In;
          In = assign_if (TryGetNumberField JsonProperties ''Mask'')
                 (\<lambda>v t. t\<lparr>Mask := v\<rparr>) In;
          In = assign_if (TryGetNumberField JsonProperties ''MaskR'')
                 (\<lambda>v t. t\<lparr>MaskR := v\<rparr>) In;
          In = assign_if (TryGetNumberField JsonProperties ''MaskG'')
                 (\<lambda>v t. t\<lparr>MaskG := v\<rparr>) In;
          In = assign_if (TryGetNumberField JsonProperties ''MaskB'')
                 (\<lambda>v t. t\<lparr>MaskB := v\<rparr>) In;
          In = assign_if (TryGetNumberField JsonProperties ''MaskA'')
                 (\<lambda>v t. t\<lparr>MaskA := v\<rparr>) In
      in if aType = ''Color'' then
           (let ColorInput = reinterpret_MaterialInput In;
                ColorInput = assign_if (TryGetBoolField JsonProperties ''UseConstant'')
                       (\<lambda>v t. t\<lparr>UseConstant := v\<rparr>) ColorInput;
                ColorInput = assign_if (TryGetObjectField JsonProperties ''Constant'')
                       (\<lambda>c t. t\<lparr>Constant := JObj c\<rparr>) ColorInput
            in FExpressionInput.truncate ColorInput)
         else if aType = ''Scalar'' then
           (let ScalarInput = reinterpret_MaterialInput In;
                ScalarInput = assign_if (TryGetBoolField JsonProperties ''UseConstant'')
                       (\<lambda>v t. t\<lparr>UseConstant := v\<rparr>) ScalarInput;
                ScalarInput = assign_if (TryGetNumberField JsonProperties ''Constant'')
                       (\<lambda>c t. t\<lparr>Constant := JNum c\<rparr>) ScalarInput
            in FExpressionInput.truncate ScalarInput)
         else if aType = ''Vector'' then
           (let VectorInput = reinterpret_MaterialInput In;
                VectorInput = assign_if (TryGetBoolField JsonProperties ''UseConstant'')
                       (\<lambda>v t. t\<lparr>UseConstant := v\<rparr>) VectorInput;
                VectorInput = assign_if (TryGetObjectField JsonProperties ''Constant'')
                       (\<lambda>c t. t\<lparr>Constant := JObj c\<rparr>) VectorInput
            in FExpressionInput.truncate VectorInput)
         else In)"

text \<open>Lines 181-196. \<open>CreatedExpressionMap\<close> is a \<open>TMap\<close> from names to pointers.\<close>

definition CreateExpressionInput ::
  "'w Host \<Rightarrow> FJsonObject \<Rightarrow> (FName \<Rightarrow> 'p option) \<Rightarrow> string \<Rightarrow> 'p FExpressionInput" where
  "CreateExpressionInput E JsonProperties CreatedExpressionMap PropertyName =
     (case TryGetObjectField JsonProperties PropertyName of
        Some AsObj \<Rightarrow>
          (let ExpressionName = GetExpressionName E AsObj OverrideParameterName_default
           in case CreatedExpressionMap ExpressionName of
                Some Expr \<Rightarrow> PopulateExpressionInput AsObj Expr Type_default
              | None \<Rightarrow> FExpressionInput_ctor)
      | None \<Rightarrow> FExpressionInput_ctor)"

text \<open>Lines 2932-2949, 2968-2980 and 2982-3000. A \<open>FGuid\<close> is kept as its string.\<close>

record FExpressionOutput =
  OutputName :: FName
  OMask :: int
  OMaskR :: int
  OMaskG :: int
  OMaskB :: int
  OMaskA :: int

definition PopulateExpressionOutput :: "FJsonObject \<Rightarrow> FExpressionOutput" where
  "PopulateExpressionOutput JsonProperties =
     (let Output = \<lparr>OutputName = NAME_None, OMask = 0, OMaskR = 0, OMaskG = 0, OMaskB = 0, OMaskA = 0\<rparr>;
          Output = assign_if (TryGetStringField JsonProperties ''OutputName'')
                 (\<lambda>v t. t\<lparr>OutputName := v\<rparr>) Output;
          Output = assign_if (TryGetNumberField JsonProperties ''Mask'')
                 (\<lambda>v t. t\<lparr>OMask := v\<rparr>) Output;
          Output = assign_if (TryGetNumberField JsonProperties ''MaskR'')
                 (\<lambda>v t. t\<lparr>OMaskR := v\<rparr>) Output;
          Output = assign_if (TryGetNumberField JsonProperties ''MaskG'')
                 (\<lambda>v t. t\<lparr>OMaskG := v\<rparr>) Output;
          Output = assign_if (TryGetNumberField JsonProperties ''MaskB'')
                 (\<lambda>v t. t\<lparr>OMaskB := v\<rparr>) Output;
          Output = assign_if (TryGetNumberField JsonProperties ''MaskA'')
                 (\<lambda>v t. t\<lparr>OMaskA := v\<rparr>) Output
      in Output)"

definition PopulateFuncExpressionOutput :: "FJsonObject \<Rightarrow> string \<times> FExpressionOutput" where
  "PopulateFuncExpressionOutput JsonProperties =
     ((case TryGetStringField JsonProperties ''ExpressionOutputId'' of Some v \<Rightarrow> v | None \<Rightarrow> []),
      (case TryGetObjectField JsonProperties ''Output'' of
         Some OutputObj \<Rightarrow> PopulateExpressionOutput OutputObj
       | None \<Rightarrow> \<lparr>OutputName = NAME_None, OMask = 0, OMaskR = 0, OMaskG = 0, OMaskB = 0, OMaskA = 0\<rparr>))"

definition PopulateFuncExpressionInput ::
  "'w Host \<Rightarrow> FJsonObject \<Rightarrow> (FName \<Rightarrow> 'p option) \<Rightarrow> string \<times> 'p FExpressionInput" where
  "PopulateFuncExpressionInput E JsonProperties CreatedExpressionMap =
     ((case TryGetStringField JsonProperties ''ExpressionInputId'' of Some v \<Rightarrow> v | None \<Rightarrow> []),
      (case TryGetObjectField JsonProperties ''Input'' of
         Some InputObject \<Rightarrow>
           (case CreatedExpressionMap (GetExpressionName E InputObject OverrideParameterName_default) of
              Some Expr \<Rightarrow> PopulateExpressionInput InputObject Expr Type_default
            | None \<Rightarrow> FExpressionInput_ctor)
       | None \<Rightarrow> FExpressionInput_ctor))"


section \<open>Expression objects and the calls that leave the importer\<close>

text \<open>
  A \<open>UMaterialExpression\<close> object has its name, its class (the path \<open>FindObject\<close>
  found) and its members. The members that hold expression inputs are in \<open>Inputs\<close>,
  all others in \<open>Props\<close>, each under the member's C++ name; a member that was never
  assigned is absent and holds its class default (\<open>nullptr\<close> for an object pointer).
  The value of an enum member is the integer \<open>GetValueByNameString\<close> returned.
\<close>

datatype 'p wiring =
    WInput "'p FExpressionInput"
  | WInputArray "'p FExpressionInput list"
  | WFunctionInputs "(string \<times> 'p FExpressionInput) list"

datatype propval =
    PNum int
  | PStr string
  | PBool bool
  | PEnum int
  | PObject "string option"
  | PJson json
  | POutputs "FExpressionOutput list"
  | PFunctionOutputs "(string \<times> FExpressionOutput) list"

record 'p UMaterialExpression =
  ObjName :: FName
  ObjClass :: string
  Inputs :: "string \<Rightarrow> 'p wiring option"
  Props :: "string \<Rightarrow> propval option"

definition set_Input :: "string \<Rightarrow> 'p wiring \<Rightarrow> 'p UMaterialExpression \<Rightarrow> 'p UMaterialExpression" where
  "set_Input member v nd = nd\<lparr>Inputs := (Inputs nd)(member \<mapsto> v)\<rparr>"

definition set_Prop :: "string \<Rightarrow> propval \<Rightarrow> 'p UMaterialExpression \<Rightarrow> 'p UMaterialExpression" where
  "set_Prop member v nd = nd\<lparr>Props := (Props nd)(member \<mapsto> v)\<rparr>"

definition get_Object :: "'p UMaterialExpression \<Rightarrow> string \<Rightarrow> string option" where
  "get_Object nd member = (case Props nd member of Some (PObject obj) \<Rightarrow> obj | _ \<Rightarrow> None)"

definition get_Expression :: "'p UMaterialExpression \<Rightarrow> string \<Rightarrow> 'p option" where
  "get_Expression nd member = (case Inputs nd member of Some (WInput In) \<Rightarrow> Expression In | _ \<Rightarrow> None)"

text \<open>The guarded assignment of a member, for the accessors it is written with.\<close>

definition assign_Number :: "FJsonObject \<Rightarrow> string \<Rightarrow> 'p UMaterialExpression \<Rightarrow> 'p UMaterialExpression" where
  "assign_Number Properties key nd =
     assign_if (TryGetNumberField Properties key) (\<lambda>v. set_Prop key (PNum v)) nd"

definition assign_String :: "FJsonObject \<Rightarrow> string \<Rightarrow> 'p UMaterialExpression \<Rightarrow> 'p UMaterialExpression" where
  "assign_String Properties key nd =
     assign_if (TryGetStringField Properties key) (\<lambda>v. set_Prop key (PStr v)) nd"

definition assign_Bool :: "FJsonObject \<Rightarrow> string \<Rightarrow> 'p UMaterialExpression \<Rightarrow> 'p UMaterialExpression" where
  "assign_Bool Properties key nd =
     assign_if (TryGetBoolField Properties key) (\<lambda>v. set_Prop key (PBool v)) nd"

text \<open>
  \<open>if (FString s; Properties->TryGetStringField("Key", s))
  Object->Key = static_cast<TEnum>(StaticEnum<TEnum>()->GetValueByNameString(s));\<close>
\<close>

definition assign_Enum ::
  "'w Host \<Rightarrow> string \<Rightarrow> FJsonObject \<Rightarrow> string \<Rightarrow> 'p UMaterialExpression \<Rightarrow> 'p UMaterialExpression" where
  "assign_Enum E TEnum Properties key nd =
     assign_if (TryGetStringField Properties key)
       (\<lambda>s. set_Prop key (PEnum (GetValueByNameString E TEnum s))) nd"

text \<open>
  The inline form of an input assignment (lines 2654-2661 and its copies): the member is
  assigned only when the referenced name is in the map.
\<close>

definition assign_Input_if_found ::
  "'w Host \<Rightarrow> FJsonObject \<Rightarrow> (FName \<Rightarrow> 'p option) \<Rightarrow> string \<Rightarrow> 'p UMaterialExpression \<Rightarrow> 'p UMaterialExpression" where
  "assign_Input_if_found E Properties CreatedExpressionMap key nd =
     assign_if (TryGetObjectField Properties key)
       (\<lambda>Obj. assign_if (CreatedExpressionMap (GetExpressionName E Obj OverrideParameterName_default))
          (\<lambda>Expr. set_Input key (WInput (PopulateExpressionInput Obj Expr Type_default))))
       nd"

text \<open>
  Calls that leave the importer are recorded in order. \<open>'w Effects\<close> is the asset
  registry together with that record.
\<close>

datatype call =
    UE_LOG_Warning string
  | FMessageDialog_Open string
  | AppendNotification_call string
  | LoadObject_call FJsonObject
  | HandleReference_call string
  | Editor_call string

record 'w Effects =
  World :: 'w
  Calls :: "call list"

definition record_call :: "call \<Rightarrow> 'w Effects \<Rightarrow> 'w Effects" where
  "record_call c fx = fx\<lparr>Calls := Calls fx @ [c]\<rparr>"

definition AppendNotification :: "string \<Rightarrow> 'w Effects \<Rightarrow> 'w Effects" where
  "AppendNotification msg fx = record_call (AppendNotification_call msg) fx"

text \<open>\<open>LoadObject(Ref, Object->Member)\<close>: the member is passed by reference.\<close>

definition call_LoadObject ::
  "'w Host \<Rightarrow> FJsonObject \<Rightarrow> string \<Rightarrow> 'p UMaterialExpression \<Rightarrow> 'w Effects
    \<Rightarrow> 'p UMaterialExpression \<times> 'w Effects" where
  "call_LoadObject E Ref member nd fx =
     (let r = LoadObject E Ref (get_Object nd member) (World fx)
      in (set_Prop member (PObject (fst r)) nd,
          \<lparr>World = snd r, Calls = Calls fx @ [LoadObject_call Ref]\<rparr>))"

definition call_HandleReference :: "'w Host \<Rightarrow> string \<Rightarrow> 'w Effects \<Rightarrow> bool \<times> 'w Effects" where
  "call_HandleReference E ObjectPath fx =
     (let r = HandleReference E ObjectPath (World fx)
      in (fst r, \<lparr>World = snd r, Calls = Calls fx @ [HandleReference_call ObjectPath]\<rparr>))"


section \<open>The branches of PropagateExpressions\<close>

text \<open>
  \<open>PropagateExpressions\<close> dispatches on the export's type through chains of
  \<open>if (Type->Type == "...")\<close>. The branches below are the ones the properties of this
  theory are about; each is named after the type it handles and is the statement sequence
  of its lines. Every other branch of the source is built from the same statements
  (\<open>CreateExpressionInput\<close>, the guarded member assignments, \<open>LoadObject\<close>).
\<close>

text \<open>Lines 301-306.\<close>

definition MaterialExpressionConstant ::
  "FJsonObject \<Rightarrow> 'p UMaterialExpression \<Rightarrow> 'p UMaterialExpression" where
  "MaterialExpressionConstant Properties nd = assign_Number Properties ''R'' nd"

text \<open>Lines 307-318.\<close>

definition MaterialExpressionAdd ::
  "'w Host \<Rightarrow> (FName \<Rightarrow> 'p option) \<Rightarrow> FJsonObject \<Rightarrow> 'p UMaterialExpression \<Rightarrow> 'p UMaterialExpression" where
  "MaterialExpressionAdd E CreatedExpressionMap Properties nd =
     (let nd = set_Input ''A'' (WInput (CreateExpressionInput E Properties CreatedExpressionMap ''A'')) nd;
          nd = set_Input ''B'' (WInput (CreateExpressionInput E Properties CreatedExpressionMap ''B'')) nd;
          nd = assign_Number Properties ''ConstA'' nd;
          nd = assign_Number Properties ''ConstB'' nd
      in nd)"

text \<open>Lines 407-435 (the sample and the sample parameter) and lines 436-449.\<close>

definition MaterialExpressionRuntimeVirtualTextureSample ::
  "'w Host \<Rightarrow> (FName \<Rightarrow> 'p option) \<Rightarrow> FJsonObject \<Rightarrow> 'p UMaterialExpression \<Rightarrow> 'w Effects
    \<Rightarrow> 'p UMaterialExpression \<times> 'w Effects" where
  "MaterialExpressionRuntimeVirtualTextureSample E CreatedExpressionMap Properties nd fx =
     (let nd = set_Input ''Coordinates''
                 (WInput (CreateExpressionInput E Properties CreatedExpressionMap ''Coordinates'')) nd;
          nd = set_Input ''WorldPosition''
                 (WInput (CreateExpressionInput E Properties CreatedExpressionMap ''WorldPosition'')) nd;
          nd = set_Input ''MipValue''
                 (WInput (CreateExpressionInput E Properties CreatedExpressionMap ''MipValue'')) nd;
          (nd, fx) =
            assign_if (TryGetObjectField Properties ''VirtualTexture'')
              (\<lambda>VirtualTexture (nd, fx).
                 (let (nd, fx) = call_LoadObject E VirtualTexture ''VirtualTexture'' nd fx
                  in if get_Object nd ''VirtualTexture'' = None
                     then (nd, AppendNotification
                                 (''Virtual Texture Sample Missing: '' @
                                   Split_Left (GetStringField VirtualTexture ''ObjectPath'') CHR ''.'') fx)
                     else (nd, fx)))
              (nd, fx);
          nd = assign_Enum E ''ERuntimeVirtualTextureMaterialType'' Properties ''MaterialType'' nd;
          nd = assign_Bool Properties ''bSinglePhysicalSpace'' nd;
          nd = assign_Bool Properties ''bAdaptive'' nd;
          nd = assign_Enum E ''ERuntimeVirtualTextureMipValueMode'' Properties ''MipValueMode'' nd;
          nd = assign_Enum E ''ERuntimeVirtualTextureTextureAddressMode'' Properties ''TextureAddressMode'' nd
      in (nd, fx))"

definition MaterialExpressionRuntimeVirtualTextureSampleParameter ::
  "FJsonObject \<Rightarrow> 'p UMaterialExpression \<Rightarrow> 'p UMaterialExpression" where
  "MaterialExpressionRuntimeVirtualTextureSampleParameter Properties nd =
     (let nd = assign_String Properties ''ExpressionGUID'' nd;
          nd = assign_String Properties ''ParameterName'' nd;
          nd = assign_String Properties ''Group'' nd;
          nd = assign_Number Properties ''SortPriority'' nd
      in nd)"

text \<open>
  Lines 476-484 and lines 685-693 are one statement sequence, up to the member and the
  text of the notification: the direct load, and when the member is still null the path
  before the first dot, \<open>HandleReference\<close>, and then either the notification or the
  second load.
\<close>

definition LoadObject_or_HandleReference ::
  "'w Host \<Rightarrow> string \<Rightarrow> FJsonObject \<Rightarrow> string \<Rightarrow> 'p UMaterialExpression \<Rightarrow> 'w Effects
    \<Rightarrow> 'p UMaterialExpression \<times> 'w Effects" where
  "LoadObject_or_HandleReference E Missing Ref member nd fx =
     (let (nd, fx) = call_LoadObject E Ref member nd fx
      in if get_Object nd member = None
         then (let ObjectPath = Split_Left (GetStringField Ref ''ObjectPath'') CHR ''.'';
                   (handled, fx) = call_HandleReference E ObjectPath fx
               in if \<not> handled then (nd, AppendNotification (Missing @ ObjectPath) fx)
                  else call_LoadObject E Ref member nd fx)
         else (nd, fx))"

text \<open>Lines 472-508.\<close>

definition MaterialExpressionMaterialFunctionCall ::
  "'w Host \<Rightarrow> (FName \<Rightarrow> 'p option) \<Rightarrow> FJsonObject \<Rightarrow> 'p UMaterialExpression \<Rightarrow> 'w Effects
    \<Rightarrow> 'p UMaterialExpression \<times> 'w Effects" where
  "MaterialExpressionMaterialFunctionCall E CreatedExpressionMap Properties nd fx =
     (let (nd, fx) =
            assign_if (TryGetObjectField Properties ''MaterialFunction'')
              (\<lambda>MaterialFunctionPtr (nd, fx).
                 LoadObject_or_HandleReference E ''Material Function Missing: ''
                   MaterialFunctionPtr ''MaterialFunction'' nd fx)
              (nd, fx);
          nd = assign_if (TryGetArrayField Properties ''FunctionInputs'')
                 (\<lambda>FunctionInputs.
                    set_Input ''FunctionInputs''
                      (WFunctionInputs
                        (map (\<lambda>v. PopulateFuncExpressionInput E (AsObject v) CreatedExpressionMap)
                          FunctionInputs)))
                 nd;
          nd = assign_if (TryGetArrayField Properties ''FunctionOutputs'')
                 (\<lambda>FunctionOutputs.
                    set_Prop ''FunctionOutputs''
                      (PFunctionOutputs
                        (map (\<lambda>v. PopulateFuncExpressionOutput (AsObject v)) FunctionOutputs)))
                 nd
      in (nd, fx))"

text \<open>Lines 680-701.\<close>

definition MaterialExpressionCollectionParameter ::
  "'w Host \<Rightarrow> FJsonObject \<Rightarrow> 'p UMaterialExpression \<Rightarrow> 'w Effects
    \<Rightarrow> 'p UMaterialExpression \<times> 'w Effects" where
  "MaterialExpressionCollectionParameter E Properties nd fx =
     (let (nd, fx) =
            assign_if (TryGetObjectField Properties ''Collection'')
              (\<lambda>Collection (nd, fx).
                 LoadObject_or_HandleReference E ''Material Collection Missing: ''
                   Collection ''Collection'' nd fx)
              (nd, fx);
          nd = assign_String Properties ''ParameterName'' nd;
          nd = assign_String Properties ''ParameterId'' nd
      in (nd, fx))"

text \<open>
  Lines 820-839. \<open>Inputs\<close> is a C array of \<open>EMaterialQualityLevel::Num\<close> inputs; the
  source indexes it without a check, and a write past its end is the fault
  \<open>Inputs_index_out_of_range\<close>.
\<close>

datatype fault =
    NewObject_nullptr_Class
  | Exports_Find_nullptr
  | Expression_not_an_object
  | Inputs_index_out_of_range

fun QualitySwitch_Inputs_loop ::
  "'w Host \<Rightarrow> (FName \<Rightarrow> 'p option) \<Rightarrow> json list \<Rightarrow> nat \<Rightarrow> 'p FExpressionInput list
    \<Rightarrow> fault + 'p FExpressionInput list" where
  "QualitySwitch_Inputs_loop E CreatedExpressionMap [] i arr = Inr arr"
| "QualitySwitch_Inputs_loop E CreatedExpressionMap (InputValue # rest) i arr =
     (let InputObject = AsObject InputValue;
          InputExpressionName = GetExpressionName E InputObject OverrideParameterName_default
      in case CreatedExpressionMap InputExpressionName of
           Some Expr \<Rightarrow>
             if i < length arr
             then QualitySwitch_Inputs_loop E CreatedExpressionMap rest (Suc i)
                    (arr[i := PopulateExpressionInput InputObject Expr Type_default])
             else Inl Inputs_index_out_of_range
         | None \<Rightarrow> QualitySwitch_Inputs_loop E CreatedExpressionMap rest (Suc i) arr)"

definition get_Inputs_array :: "'w Host \<Rightarrow> 'p UMaterialExpression \<Rightarrow> 'p FExpressionInput list" where
  "get_Inputs_array E nd =
     (case Inputs nd ''Inputs'' of
        Some (WInputArray arr) \<Rightarrow> arr
      | _ \<Rightarrow> replicate (QualityLevel_Num E) FExpressionInput_ctor)"

definition MaterialExpressionQualitySwitch ::
  "'w Host \<Rightarrow> (FName \<Rightarrow> 'p option) \<Rightarrow> FJsonObject \<Rightarrow> 'p UMaterialExpression
    \<Rightarrow> fault + 'p UMaterialExpression" where
  "MaterialExpressionQualitySwitch E CreatedExpressionMap Properties nd =
     (let nd = set_Input ''Default''
                 (WInput (CreateExpressionInput E Properties CreatedExpressionMap ''Default'')) nd
      in case TryGetArrayField Properties ''Inputs'' of
           Some InputsArr \<Rightarrow>
             (case QualitySwitch_Inputs_loop E CreatedExpressionMap InputsArr 0 (get_Inputs_array E nd) of
                Inl f \<Rightarrow> Inl f
              | Inr arr \<Rightarrow> Inr (set_Input ''Inputs'' (WInputArray arr) nd))
         | None \<Rightarrow> Inr nd)"



text \<open>
  The chains of lines 214-2639, restricted to the branches above, in the order of the
  source: the chain of lines 214-406, the two \<open>if\<close> of lines 407 and 436, and the chain
  of lines 450-1544.
\<close>

definition kind_branches ::
  "'w Host \<Rightarrow> (FName \<Rightarrow> 'p option) \<Rightarrow> FName \<Rightarrow> FJsonObject \<Rightarrow> 'p UMaterialExpression \<Rightarrow> 'w Effects
    \<Rightarrow> fault + 'p UMaterialExpression \<times> 'w Effects" where
  "kind_branches E CreatedExpressionMap aType Properties nd fx =
     (let nd = (if aType = ''MaterialExpressionConstant''
                then MaterialExpressionConstant Properties nd
                else if aType = ''MaterialExpressionAdd''
                then MaterialExpressionAdd E CreatedExpressionMap Properties nd
                else nd);
          (nd, fx) =
            (if aType = ''MaterialExpressionRuntimeVirtualTextureSample'' \<or>
                aType = ''MaterialExpressionRuntimeVirtualTextureSampleParameter''
             then MaterialExpressionRuntimeVirtualTextureSample E CreatedExpressionMap Properties nd fx
             else (nd, fx));
          nd = (if aType = ''MaterialExpressionRuntimeVirtualTextureSampleParameter''
                then MaterialExpressionRuntimeVirtualTextureSampleParameter Properties nd
                else nd)
      in if aType = ''MaterialExpressionMaterialFunctionCall''
         then Inr (MaterialExpressionMaterialFunctionCall E CreatedExpressionMap Properties nd fx)
         else if aType = ''MaterialExpressionCollectionParameter''
         then Inr (MaterialExpressionCollectionParameter E Properties nd fx)
         else if aType = ''MaterialExpressionQualitySwitch''
         then (case MaterialExpressionQualitySwitch E CreatedExpressionMap Properties nd of
                 Inl f \<Rightarrow> Inl f
               | Inr nd \<Rightarrow> Inr (nd, fx))
         else Inr (nd, fx))"

text \<open>
  The two handlers of the parent classes, lines 2644-2707 and 2711-2738.
  \<open>Cast<T>(Expression)\<close> succeeds when the object's class derives from \<open>T\<close>.
\<close>

definition TextureSample_parent ::
  "'w Host \<Rightarrow> (FName \<Rightarrow> 'p option) \<Rightarrow> FJsonObject \<Rightarrow> 'p UMaterialExpression \<Rightarrow> 'p UMaterialExpression" where
  "TextureSample_parent E CreatedExpressionMap Properties nd =
     (if IsA E (ObjClass nd) ''MaterialExpressionTextureSample''
      then (let nd = assign_Enum E ''ETextureMipValueMode'' Properties ''MipValueMode'' nd;
                nd = assign_Enum E ''ESamplerSourceMode'' Properties ''SamplerSource'' nd;
                nd = assign_Bool Properties ''AutomaticViewMipBias'' nd;
                nd = assign_Number Properties ''ConstCoordinate'' nd;
                nd = assign_Number Properties ''ConstMipValue'' nd;
                nd = assign_Input_if_found E Properties CreatedExpressionMap ''Coordinates'' nd;
                nd = assign_Input_if_found E Properties CreatedExpressionMap ''TextureObject'' nd;
                nd = assign_Input_if_found E Properties CreatedExpressionMap ''MipValue'' nd;
                nd = assign_Input_if_found E Properties CreatedExpressionMap ''CoordinatesDX'' nd;
                nd = assign_Input_if_found E Properties CreatedExpressionMap ''CoordinatesDY'' nd;
                nd = assign_Input_if_found E Properties CreatedExpressionMap ''AutomaticViewMipBiasValue'' nd
            in nd)
      else nd)"

definition assign_ChannelName ::
  "FJsonObject \<Rightarrow> string \<Rightarrow> 'p UMaterialExpression \<Rightarrow> 'p UMaterialExpression" where
  "assign_ChannelName ChannelNames channel nd =
     assign_if (TryGetObjectField ChannelNames channel)
       (\<lambda>c. set_Prop (''ChannelNames.'' @ channel) (PStr (GetStringField c ''SourceString''))) nd"

definition TextureSampleParameter_parent ::
  "'w Host \<Rightarrow> FJsonObject \<Rightarrow> 'p UMaterialExpression \<Rightarrow> 'p UMaterialExpression" where
  "TextureSampleParameter_parent E Properties nd =
     (if IsA E (ObjClass nd) ''MaterialExpressionTextureSampleParameter''
      then (let nd = assign_String Properties ''ParameterName'' nd;
                nd = assign_String Properties ''ExpressionGUID'' nd;
                nd = assign_String Properties ''Group'' nd;
                nd = assign_Number Properties ''SortPriority'' nd
            in assign_if (TryGetObjectField Properties ''ChannelNames'')
                 (\<lambda>ChannelNames nd.
                    (let nd = assign_ChannelName ChannelNames ''R'' nd;
                         nd = assign_ChannelName ChannelNames ''G'' nd;
                         nd = assign_ChannelName ChannelNames ''B'' nd;
                         nd = assign_ChannelName ChannelNames ''A'' nd
                     in nd))
                 nd)
      else nd)"


section \<open>MaterialGraphNode_ExpressionWrapper\<close>

text \<open>
  \<open>Parent\<close> is the material or the material function that is imported: its name and
  which of the two it is. Lines 2779-2855; the calls into the editor are recorded by
  their names.
\<close>

datatype UClass_of_Parent = UMaterial | UMaterialFunction | UObject_other

record UObject =
  GetName :: string
  GetClass :: UClass_of_Parent

definition MaterialGraphNode_ExpressionWrapper ::
  "'w Host \<Rightarrow> UObject \<Rightarrow> 'p UMaterialExpression \<Rightarrow> FJsonObject \<Rightarrow> 'w Effects
    \<Rightarrow> 'p UMaterialExpression \<times> 'w Effects" where
  "MaterialGraphNode_ExpressionWrapper E Parent nd aJson fx =
     (let nd = assign_Number aJson ''MaterialExpressionEditorX'' nd;
          nd = assign_Number aJson ''MaterialExpressionEditorY'' nd;
          nd = assign_String aJson ''MaterialExpressionGuid'' nd;
          nd = (if GetClass Parent = UMaterialFunction
                then set_Prop ''Function'' (PObject (Some (GetName Parent))) nd
                else if GetClass Parent = UMaterial
                then set_Prop ''Material'' (PObject (Some (GetName Parent))) nd
                else nd);
          nd = assign_String aJson ''Desc'' nd;
          nd = assign_Bool aJson ''bCommentBubbleVisible'' nd;
          nd = assign_Bool aJson ''bCollapsed'' nd;
          nd = assign_Bool aJson ''bRealtimePreview'' nd;
          nd = assign_Bool aJson ''bShowOutputNameOnPin'' nd;
          nd = assign_if (TryGetArrayField aJson ''Outputs'')
                 (\<lambda>Outputs.
                    set_Prop ''Outputs''
                      (POutputs (map (\<lambda>v. PopulateExpressionOutput (AsObject v)) Outputs)))
                 nd;
          nd = (if IsA E (ObjClass nd) ''MaterialExpressionParameter''
                then (let nd = assign_String aJson ''ExpressionGUID'' nd;
                          nd = assign_String aJson ''ParameterName'' nd;
                          nd = assign_String aJson ''Group'' nd;
                          nd = assign_Number aJson ''SortPriority'' nd
                      in nd)
                else nd)
      in if IsA E (ObjClass nd) ''MaterialExpressionTextureBase''
         then (let (nd, fx) =
                     assign_if (TryGetStringField aJson ''SamplerType'')
                       (\<lambda>SamplerType (nd, fx).
                          (set_Prop ''SamplerType''
                             (PEnum (GetValueByNameString E ''EMaterialSamplerType'' SamplerType)) nd,
                           record_call (Editor_call ''PostEditChangeProperty'')
                             (record_call (Editor_call ''Modify'') fx)))
                       (nd, fx);
                   (nd, fx) =
                     assign_if (TryGetObjectField aJson ''Texture'')
                       (\<lambda>TexturePtr (nd, fx).
                          (let (nd, fx) = call_LoadObject E TexturePtr ''Texture'' nd fx;
                               fx = (if GetClass Parent = UMaterial
                                     then record_call (Editor_call ''PromptForCheckoutAndSave'')
                                            (record_call (Editor_call ''RecompileMaterial'') fx)
                                     else fx)
                           in (nd, record_call (Editor_call ''PostEditChangeProperty'')
                                     (record_call (Editor_call ''Modify'') fx))))
                       (nd, fx);
                   nd = assign_Bool aJson ''IsDefaultMeshpaintTexture'' nd;
                   fx = (if GetClass Parent = UMaterial
                         then record_call (Editor_call ''UpdateCachedExpressionData'')
                                (record_call (Editor_call ''RecacheUniformExpressions'') fx)
                         else fx)
               in (nd, fx))
         else (nd, fx))"


section \<open>The node factory and the create pass\<close>

text \<open>
  The editor's side of one import: the effects, the objects by pointer, and the
  expression collection of \<open>Parent\<close>.

  \<open>NewObject<UMaterialExpression>(Parent, Class, Name, RF_Transactional)\<close> asserts that
  \<open>Class\<close> is not null, and otherwise returns a default-initialised object of that
  class, never null. Within one \<open>Parent\<close> an object is identified by its name (a second
  \<open>NewObject\<close> with the name of a live object reinitialises that object): the pointer
  it returns is \<open>alloc Name\<close>, for a function \<open>alloc\<close> that stands for the addresses
  this run of the editor hands out.
\<close>

record ('w, 'p) Editor =
  Fx :: "'w Effects"
  Heap :: "'p \<Rightarrow> 'p UMaterialExpression option"
  ExpressionCollection :: "'p list"

definition NewObject ::
  "(FName \<Rightarrow> 'p) \<Rightarrow> string option \<Rightarrow> FName \<Rightarrow> ('w, 'p) Editor \<Rightarrow> fault + 'p \<times> ('w, 'p) Editor" where
  "NewObject alloc Class Name ed =
     (case Class of
        None \<Rightarrow> Inl NewObject_nullptr_Class
      | Some c \<Rightarrow>
          Inr (alloc Name,
               ed\<lparr>Heap := (Heap ed)(alloc Name \<mapsto>
                     \<lparr>ObjName = Name, ObjClass = c, Inputs = Map.empty, Props = Map.empty\<rparr>)\<rparr>))"

text \<open>Lines 2857-2881. The result is \<open>None\<close> for \<open>nullptr\<close>.\<close>

definition CreateEmptyExpression ::
  "'w Host \<Rightarrow> (FName \<Rightarrow> 'p) \<Rightarrow> FName \<Rightarrow> FName \<Rightarrow> ('w, 'p) Editor
    \<Rightarrow> fault + 'p option \<times> ('w, 'p) Editor" where
  "CreateEmptyExpression E alloc Name aType ed =
     (if aType \<in> set (IgnoredExpressions E) then Inr (None, ed)
      else
        (let Engine_Class = ''/Script/Engine.'' @ aType;
             Landscape_Class = ''/Script/Landscape.'' @ aType;
             InterchangeImport_Class = ''/Script/InterchangeImport.'' @ aType;
             ed = (if aType \<notin> set (Expressions E)
                   then (let fx = record_call
                                    (UE_LOG_Warning
                                      (''Missing support for expression type: '' @ [CHR 0x22] @ aType @ [CHR 0x22]))
                                    (Fx ed);
                             fx = (if aType \<noteq> []
                                   then record_call
                                          (FMessageDialog_Open
                                            (''Missing support for expression type: '' @ aType @
                                             '', please modify source to allow properties to be set.''))
                                          fx
                                   else fx)
                         in ed\<lparr>Fx := fx\<rparr>)
                   else ed);
             ExpressionClass =
               (if FindObject_UClass E Engine_Class then Some Engine_Class
                else if FindObject_UClass E Landscape_Class then Some Landscape_Class
                else if FindObject_UClass E InterchangeImport_Class then Some InterchangeImport_Class
                else None)
         in case NewObject alloc ExpressionClass Name ed of
              Inl f \<Rightarrow> Inl f
            | Inr (Expr, ed) \<Rightarrow> Inr (Some Expr, ed)))"

text \<open>
  Lines 156-179. The inner loop looks for the entry of \<open>Exports\<close> with this name and
  this outer; the created map and the editor are the state of the outer loop.
\<close>

fun ConstructExpressions_loop ::
  "'w Host \<Rightarrow> (FName \<Rightarrow> 'p) \<Rightarrow> string \<Rightarrow> FName list \<Rightarrow> (FName \<times> FImportData) list
    \<Rightarrow> (FName \<Rightarrow> 'p option) \<Rightarrow> ('w, 'p) Editor
    \<Rightarrow> fault + (FName \<Rightarrow> 'p option) \<times> ('w, 'p) Editor" where
  "ConstructExpressions_loop E alloc aOuter [] Exports CreatedExpressionMap ed =
     Inr (CreatedExpressionMap, ed)"
| "ConstructExpressions_loop E alloc aOuter (Name # rest) Exports CreatedExpressionMap ed =
     (case find (\<lambda>Key. fst Key = Name \<and> Outer (snd Key) = aOuter) Exports of
        None \<Rightarrow> ConstructExpressions_loop E alloc aOuter rest Exports CreatedExpressionMap ed
      | Some Key \<Rightarrow>
          (case CreateEmptyExpression E alloc Name (Type (snd Key)) ed of
             Inl f \<Rightarrow> Inl f
           | Inr (None, ed) \<Rightarrow>
               ConstructExpressions_loop E alloc aOuter rest Exports CreatedExpressionMap ed
           | Inr (Some Expr, ed) \<Rightarrow>
               ConstructExpressions_loop E alloc aOuter rest Exports
                 (CreatedExpressionMap(Name \<mapsto> Expr)) ed))"

definition ConstructExpressions ::
  "'w Host \<Rightarrow> (FName \<Rightarrow> 'p) \<Rightarrow> string \<Rightarrow> FName list \<Rightarrow> (FName \<times> FImportData) list
    \<Rightarrow> ('w, 'p) Editor \<Rightarrow> fault + (FName \<Rightarrow> 'p option) \<times> ('w, 'p) Editor" where
  "ConstructExpressions E alloc aOuter ExpressionNames Exports ed =
     ConstructExpressions_loop E alloc aOuter ExpressionNames Exports Map.empty ed"


section \<open>The wire pass: PropagateExpressions\<close>

text \<open>
  \<open>FMaterialExpressionCollection::AddExpression\<close> adds a pointer that is not in the
  collection yet; \<open>Expressions.Add\<close> appends.
\<close>

definition AddUnique :: "'a \<Rightarrow> 'a list \<Rightarrow> 'a list" where
  "AddUnique x xs = (if x \<in> set xs then xs else xs @ [x])"

text \<open>
  One turn of the loop from line 214 on, for the object \<open>Expr\<close> points to: the branch
  of the type, the two parent handlers, the collection of \<open>Parent\<close> (lines 2740-2745)
  and the wrapper (line 2747).
\<close>

definition PropagateExpression ::
  "'w Host \<Rightarrow> UObject \<Rightarrow> (FName \<Rightarrow> 'p option) \<Rightarrow> bool \<Rightarrow> FName \<Rightarrow> FJsonObject \<Rightarrow> 'p
    \<Rightarrow> ('w, 'p) Editor \<Rightarrow> fault + ('w, 'p) Editor" where
  "PropagateExpression E Parent CreatedExpressionMap bSubgraph aType Properties Expr ed =
     (case Heap ed Expr of
        None \<Rightarrow> Inl Expression_not_an_object
      | Some nd \<Rightarrow>
          (case kind_branches E CreatedExpressionMap aType Properties nd (Fx ed) of
             Inl f \<Rightarrow> Inl f
           | Inr (nd, fx) \<Rightarrow>
               (let nd = TextureSample_parent E CreatedExpressionMap Properties nd;
                    nd = TextureSampleParameter_parent E Properties nd;
                    coll = (if \<not> bSubgraph
                            then (let coll = (if GetClass Parent = UMaterial
                                              then ExpressionCollection ed @ [Expr]
                                              else ExpressionCollection ed)
                                  in if GetClass Parent = UMaterialFunction
                                     then AddUnique Expr coll else coll)
                            else ExpressionCollection ed);
                    (nd, fx) = MaterialGraphNode_ExpressionWrapper E Parent nd Properties fx
                in Inr \<lparr>Fx = fx, Heap = (Heap ed)(Expr \<mapsto> nd), ExpressionCollection = coll\<rparr>)))"

text \<open>Lines 198-213 and the loop. \<open>Exports.Find(Name)\<close> is dereferenced unchecked.\<close>

fun PropagateExpressions ::
  "'w Host \<Rightarrow> UObject \<Rightarrow> FName list \<Rightarrow> (FName \<times> FImportData) list \<Rightarrow> (FName \<Rightarrow> 'p option)
    \<Rightarrow> bool \<Rightarrow> bool \<Rightarrow> ('w, 'p) Editor \<Rightarrow> fault + ('w, 'p) Editor" where
  "PropagateExpressions E Parent [] Exports CreatedExpressionMap bCheckOuter bSubgraph ed = Inr ed"
| "PropagateExpressions E Parent (Name # rest) Exports CreatedExpressionMap bCheckOuter bSubgraph ed =
     (case map_of Exports Name of
        None \<Rightarrow> Inl Exports_Find_nullptr
      | Some aType \<Rightarrow>
          (let Properties = GetObjectField (Json aType) ''Properties''
           in case CreatedExpressionMap Name of
                None \<Rightarrow>
                  PropagateExpressions E Parent rest Exports CreatedExpressionMap bCheckOuter bSubgraph ed
              | Some Expr \<Rightarrow>
                  if bCheckOuter \<and>
                     (case TryGetStringField (Json aType) ''Outer'' of
                        Some OuterName \<Rightarrow> OuterName \<noteq> GetName Parent
                      | None \<Rightarrow> False)
                  then PropagateExpressions E Parent rest Exports CreatedExpressionMap bCheckOuter bSubgraph ed
                  else (case PropagateExpression E Parent CreatedExpressionMap bSubgraph
                               (Type aType) Properties Expr ed of
                          Inl f \<Rightarrow> Inl f
                        | Inr ed \<Rightarrow>
                            PropagateExpressions E Parent rest Exports CreatedExpressionMap
                              bCheckOuter bSubgraph ed)))"


section \<open>Notions the properties are stated with\<close>

text \<open>The type, the name and the index entry \<open>FindEditorOnlyData\<close> reads off a record.\<close>

definition ExType_of :: "json \<Rightarrow> string" where
  "ExType_of v = GetStringField (AsObject v) ''Type''"

definition Name_of :: "json \<Rightarrow> FName" where
  "Name_of v = GetStringField (AsObject v) ''Name''"


definition ImportData_of :: "string \<Rightarrow> json \<Rightarrow> FImportData" where
  "ImportData_of aOuter v = \<lparr>Type = ExType_of v, Outer = aOuter, Json = AsObject v\<rparr>"


text \<open>
  The expression inputs a member holds; an input targets the created map when its
  pointer is null or a value of the map; an object is wired into the map when all its
  inputs are, and a heap when all its objects are.
\<close>

fun wiring_inputs :: "'p wiring \<Rightarrow> 'p FExpressionInput list" where
  "wiring_inputs (WInput In) = [In]"
| "wiring_inputs (WInputArray arr) = arr"
| "wiring_inputs (WFunctionInputs fs) = map snd fs"

definition targets_in :: "(FName \<Rightarrow> 'p option) \<Rightarrow> 'p FExpressionInput \<Rightarrow> bool" where
  "targets_in cm In = (case Expression In of None \<Rightarrow> True | Some p \<Rightarrow> p \<in> ran cm)"

definition wired_into :: "(FName \<Rightarrow> 'p option) \<Rightarrow> 'p UMaterialExpression \<Rightarrow> bool" where
  "wired_into cm nd =
     (\<forall>member w. Inputs nd member = Some w \<longrightarrow> list_all (targets_in cm) (wiring_inputs w))"




text \<open>
  The recovery of a missing asset as the specification words it, for a member holding
  \<open>before\<close>, the effects \<open>fx\<close> before and the member \<open>after\<close> and the effects \<open>fx'\<close>
  after: one direct load; when that returns null the path before the first dot goes to
  \<open>HandleReference\<close>; when the hook succeeds the load is made once more, and when it
  fails the notification is sent and the member stays null.
\<close>

definition recovers ::
  "'w Host \<Rightarrow> string \<Rightarrow> FJsonObject \<Rightarrow> string option \<Rightarrow> 'w Effects
    \<Rightarrow> string option \<Rightarrow> 'w Effects \<Rightarrow> bool" where
  "recovers E Missing Ref before fx after fx' =
     (let direct = LoadObject E Ref before (World fx);
          ObjectPath = Split_Left (GetStringField Ref ''ObjectPath'') CHR ''.''
      in if fst direct \<noteq> None
         then after = fst direct \<and> World fx' = snd direct \<and>
              Calls fx' = Calls fx @ [LoadObject_call Ref]
         else (let hook = HandleReference E ObjectPath (snd direct)
               in if fst hook
                  then (let again = LoadObject E Ref None (snd hook)
                        in after = fst again \<and> World fx' = snd again \<and>
                           Calls fx' =
                             Calls fx @ [LoadObject_call Ref, HandleReference_call ObjectPath,
                                         LoadObject_call Ref])
                  else after = None \<and> World fx' = snd hook \<and>
                       Calls fx' =
                         Calls fx @ [LoadObject_call Ref, HandleReference_call ObjectPath,
                                     AppendNotification_call (Missing @ ObjectPath)]))"

text \<open>An entry of the \<open>Inputs\<close> array whose referenced name is in the created map.\<close>

definition resolves :: "'w Host \<Rightarrow> (FName \<Rightarrow> 'p option) \<Rightarrow> json \<Rightarrow> bool" where
  "resolves E cm InputValue =
     (cm (GetExpressionName E (AsObject InputValue) OverrideParameterName_default) \<noteq> None)"

text \<open>
  What \<open>CreateEmptyExpression\<close> computes on its way: the class found under the three module
  paths, the calls it makes for a type that \<open>Expressions\<close> does not have, and the object
  \<open>NewObject\<close> returns. \<open>created_Type\<close> is the type under which \<open>ConstructExpressions\<close>
  has \<open>Name\<close> created: the type of the first entry with this name and this outer, when
  it is not an ignored one.
\<close>

definition ExpressionClass_of :: "'w Host \<Rightarrow> FName \<Rightarrow> string option" where
  "ExpressionClass_of E aType =
     (if FindObject_UClass E (''/Script/Engine.'' @ aType) then Some (''/Script/Engine.'' @ aType)
      else if FindObject_UClass E (''/Script/Landscape.'' @ aType)
      then Some (''/Script/Landscape.'' @ aType)
      else if FindObject_UClass E (''/Script/InterchangeImport.'' @ aType)
      then Some (''/Script/InterchangeImport.'' @ aType)
      else None)"

definition Missing_support :: "'w Host \<Rightarrow> FName \<Rightarrow> call list" where
  "Missing_support E aType =
     (if aType \<in> set (Expressions E) then []
      else UE_LOG_Warning (''Missing support for expression type: '' @ [CHR 0x22] @ aType @ [CHR 0x22]) #
           (if aType \<noteq> []
            then [FMessageDialog_Open
                    (''Missing support for expression type: '' @ aType @
                     '', please modify source to allow properties to be set.'')]
            else []))"

definition Object_empty :: "FName \<Rightarrow> string \<Rightarrow> 'p UMaterialExpression" where
  "Object_empty Name c = \<lparr>ObjName = Name, ObjClass = c, Inputs = Map.empty, Props = Map.empty\<rparr>"

definition created_Type :: "'w Host \<Rightarrow> string \<Rightarrow> (FName \<times> FImportData) list \<Rightarrow> FName \<Rightarrow> FName option" where
  "created_Type E aOuter Exports Name =
     (case find (\<lambda>Key. fst Key = Name \<and> Outer (snd Key) = aOuter) Exports of
        None \<Rightarrow> None
      | Some Key \<Rightarrow>
          if Type (snd Key) \<in> set (IgnoredExpressions E) then None else Some (Type (snd Key)))"

text \<open>
  The wire pass, taken apart. \<open>wire_node\<close> is what one turn of the loop does to the object
  \<open>Expr\<close> points to, \<open>attach\<close> what it does to the collection of \<open>Parent\<close>, and
  \<open>wired_Name\<close> the object it handles for a name: none when the name is not in the created
  map or the outer check skips it. \<open>PropagateExpressions_step\<close> is one turn on the result
  of the turns before it.
\<close>

definition attach :: "UObject \<Rightarrow> bool \<Rightarrow> 'p \<Rightarrow> 'p list \<Rightarrow> 'p list" where
  "attach Parent bSubgraph Expr coll =
     (if \<not> bSubgraph
      then (let coll = (if GetClass Parent = UMaterial then coll @ [Expr] else coll)
            in if GetClass Parent = UMaterialFunction then AddUnique Expr coll else coll)
      else coll)"

definition wire_node ::
  "'w Host \<Rightarrow> UObject \<Rightarrow> (FName \<Rightarrow> 'p option) \<Rightarrow> FName \<Rightarrow> FJsonObject \<Rightarrow> 'p UMaterialExpression
    \<Rightarrow> 'w Effects \<Rightarrow> fault + 'p UMaterialExpression \<times> 'w Effects" where
  "wire_node E Parent cm aType Properties nd fx =
     (case kind_branches E cm aType Properties nd fx of
        Inl f \<Rightarrow> Inl f
      | Inr r \<Rightarrow>
          Inr (MaterialGraphNode_ExpressionWrapper E Parent
                 (TextureSampleParameter_parent E Properties
                    (TextureSample_parent E cm Properties (fst r)))
                 Properties (snd r)))"

definition wired_Name ::
  "UObject \<Rightarrow> (FName \<times> FImportData) list \<Rightarrow> (FName \<Rightarrow> 'p option) \<Rightarrow> bool \<Rightarrow> FName \<Rightarrow> 'p option" where
  "wired_Name Parent Exports cm bCheckOuter Name =
     (case map_of Exports Name of
        None \<Rightarrow> None
      | Some aType \<Rightarrow>
          if bCheckOuter \<and>
             (case TryGetStringField (Json aType) ''Outer'' of
                Some OuterName \<Rightarrow> OuterName \<noteq> GetName Parent
              | None \<Rightarrow> False)
          then None else cm Name)"


text \<open>
  What the claims about connections observe: the class and the inputs of an object, of
  every object of the heap, and of a run of the wire pass when it returns; and the object
  the create pass makes for a name.
\<close>

definition wiring_of :: "'p UMaterialExpression \<Rightarrow> string \<times> (string \<Rightarrow> 'p wiring option)" where
  "wiring_of nd = (ObjClass nd, Inputs nd)"





text \<open>
  Objects compared by name. \<open>rename_node f\<close> is the object with every pointer \<open>p\<close> of its
  inputs replaced by \<open>f p\<close>; \<open>Name_at ed p\<close> is the name of the object \<open>p\<close> points to.
  \<open>by_Name cm ed\<close> is what an import leaves, read without pointers: for every name of the
  created map its object, the targets of its inputs given by name, the collection as the
  list of the names of its objects, and the calls made with the asset registry they
  leave. \<open>renamed f ed ed'\<close>: the editor \<open>ed'\<close> is \<open>ed\<close> with \<open>f p\<close> in the place of every
  pointer \<open>p\<close>.
\<close>

definition rename_Input :: "('p \<Rightarrow> 'q) \<Rightarrow> 'p FExpressionInput \<Rightarrow> 'q FExpressionInput" where
  "rename_Input f In =
     \<lparr>Expression = map_option f (Expression In), OutputIndex = OutputIndex In,
      InputName = InputName In, Mask = Mask In, MaskR = MaskR In, MaskG = MaskG In,
      MaskB = MaskB In, MaskA = MaskA In\<rparr>"

fun rename_wiring :: "('p \<Rightarrow> 'q) \<Rightarrow> 'p wiring \<Rightarrow> 'q wiring" where
  "rename_wiring f (WInput In) = WInput (rename_Input f In)"
| "rename_wiring f (WInputArray arr) = WInputArray (map (rename_Input f) arr)"
| "rename_wiring f (WFunctionInputs fs) = WFunctionInputs (map (\<lambda>fi. (fst fi, rename_Input f (snd fi))) fs)"

definition rename_node :: "('p \<Rightarrow> 'q) \<Rightarrow> 'p UMaterialExpression \<Rightarrow> 'q UMaterialExpression" where
  "rename_node f nd =
     \<lparr>ObjName = ObjName nd, ObjClass = ObjClass nd,
      Inputs = (\<lambda>member. map_option (rename_wiring f) (Inputs nd member)), Props = Props nd\<rparr>"




text \<open>The target and the output index of the input a member holds.\<close>

definition Target_of :: "'p UMaterialExpression \<Rightarrow> string \<Rightarrow> ('p option \<times> int) option" where
  "Target_of nd member =
     (case Inputs nd member of
        Some (WInput In) \<Rightarrow> Some (Expression In, OutputIndex In)
      | _ \<Rightarrow> None)"


section \<open>An example host and example exports\<close>

text \<open>
  One choice of the surroundings, used to run the model on concrete exports. Its
  \<open>GetExportNameOfSubobject\<close> takes the name between the colon and the closing quote of
  an object reference; its asset registry is the list of object paths that load, and its
  \<open>HandleReference\<close> can fetch one material function.
\<close>

definition GetExportNameOfSubobject_example :: "string \<Rightarrow> FName" where
  "GetExportNameOfSubobject_example PackageIndex =
     (let Name = (if CHR 0x27 \<in> set PackageIndex
                  then tl (dropWhile (\<lambda>c. c \<noteq> CHR 0x27) PackageIndex) else []);
          Name = (if CHR '':'' \<in> set Name
                  then tl (dropWhile (\<lambda>c. c \<noteq> CHR '':'') Name) else Name)
      in filter (\<lambda>c. c \<noteq> CHR 0x27) Name)"

definition Host_example :: "string list Host" where
  "Host_example =
     \<lparr>AllJsonObjects = [],
      FilterExportsByOuter = (\<lambda>aOuter. []),
      IgnoredExpressions = [''MaterialExpressionComposite'', ''MaterialExpressionPinBase''],
      Expressions =
        [''MaterialExpressionAdd'', ''MaterialExpressionConstant'',
         ''MaterialExpressionQualitySwitch'', ''MaterialExpressionMaterialFunctionCall'',
         ''MaterialExpressionCollectionParameter'',
         ''MaterialExpressionRuntimeVirtualTextureSample''],
      GetExportNameOfSubobject = GetExportNameOfSubobject_example,
      FindObject_UClass = (\<lambda>path. path \<in> set
        [''/Script/Engine.MaterialExpressionAdd'', ''/Script/Engine.MaterialExpressionConstant'',
         ''/Script/Engine.MaterialExpressionQualitySwitch'',
         ''/Script/Engine.MaterialExpressionMaterialFunctionCall'',
         ''/Script/Engine.MaterialExpressionCollectionParameter'',
         ''/Script/Engine.MaterialExpressionRuntimeVirtualTextureSample'',
         ''/Script/Engine.MaterialExpressionTextureSample'',
         ''/Script/Engine.MaterialExpressionHairColor'']),
      IsA = (\<lambda>c base. (c, base) \<in> set
        [(''/Script/Engine.MaterialExpressionTextureSample'', ''MaterialExpressionTextureSample''),
         (''/Script/Engine.MaterialExpressionTextureSample'', ''MaterialExpressionTextureBase'')]),
      QualityLevel_Num = 4,
      GetValueByNameString = (\<lambda>TEnum s.
        case map_of
          [((''ERuntimeVirtualTextureMaterialType'', ''BaseColor''), 0),
           ((''ERuntimeVirtualTextureMaterialType'', ''WorldHeight''), 5),
           ((''ETextureMipValueMode'', ''TMVM_None''), 0),
           ((''ETextureMipValueMode'', ''TMVM_MipLevel''), 1)] (TEnum, s)
        of Some v \<Rightarrow> v | None \<Rightarrow> - 1),
      LoadObject = (\<lambda>Ref cur w.
        (let path = GetStringField Ref ''ObjectPath''
         in if path \<in> set w then Some path else None, w)),
      HandleReference = (\<lambda>path w.
        if path \<in> set [''/Game/Functions/MF_Remote''] then (True, (path @ ''.0'') # w)
        else (False, w))\<rparr>"

definition ObjectName_ref :: "string \<Rightarrow> json" where
  "ObjectName_ref n =
     JObj [(''ObjectName'',
            JStr (''MaterialExpression'' @ [CHR 0x27] @ ''M_Example:'' @ n @ [CHR 0x27]))]"

definition Expression_ref :: "string \<Rightarrow> json" where
  "Expression_ref n = JObj [(''Expression'', ObjectName_ref n)]"

definition Asset_ref :: "string \<Rightarrow> FJsonObject" where
  "Asset_ref path = [(''ObjectName'', JStr ''Asset''), (''ObjectPath'', JStr path)]"

definition Export_example :: "string \<Rightarrow> string \<Rightarrow> FJsonObject \<Rightarrow> json" where
  "Export_example n t props =
     JObj [(''Type'', JStr t), (''Name'', JStr n), (''Outer'', JStr ''M_Example''),
           (''Properties'', JObj props)]"

definition Records_example :: "json list" where
  "Records_example =
     [Export_example ''N1'' ''MaterialExpressionAdd''
        [(''A'', Expression_ref ''N2''), (''B'', Expression_ref ''N9''),
         (''ConstA'', JNum 0), (''ConstB'', JNum 5)],
      Export_example ''N2'' ''MaterialExpressionConstant'' [(''R'', JNum 3)]]"

definition Parent_example :: UObject where
  "Parent_example = \<lparr>GetName = ''M_Example'', GetClass = UMaterial\<rparr>"

definition Editor_empty :: "'w \<Rightarrow> ('w, 'p) Editor" where
  "Editor_empty w =
     \<lparr>Fx = \<lparr>World = w, Calls = []\<rparr>, Heap = Map.empty, ExpressionCollection = []\<rparr>"

text \<open>
  The index of \<open>Records_example\<close>, and what the create pass makes of it when a pointer is
  the name of its object.
\<close>

definition Exports_example :: "(FName \<times> FImportData) list" where
  "Exports_example = map (\<lambda>v. (Name_of v, ImportData_of ''M_Example'' v)) Records_example"

definition Created_example :: "FName \<Rightarrow> string option" where
  "Created_example = [''N1'' \<mapsto> ''N1'', ''N2'' \<mapsto> ''N2'']"

definition Editor_created_example :: "(string list, string) Editor" where
  "Editor_created_example =
     \<lparr>Fx = \<lparr>World = [], Calls = []\<rparr>,
      Heap = [''N1'' \<mapsto> \<lparr>ObjName = ''N1'', ObjClass = ''/Script/Engine.MaterialExpressionAdd'',
                          Inputs = Map.empty, Props = Map.empty\<rparr>,
              ''N2'' \<mapsto> \<lparr>ObjName = ''N2'', ObjClass = ''/Script/Engine.MaterialExpressionConstant'',
                          Inputs = Map.empty, Props = Map.empty\<rparr>],
      ExpressionCollection = []\<rparr>"

text \<open>An object with the given members set, and the effects of an editor that has made no call.\<close>

definition Object_example :: "string \<Rightarrow> FName \<Rightarrow> (string \<Rightarrow> propval option) \<Rightarrow> string UMaterialExpression" where
  "Object_example c n props = \<lparr>ObjName = n, ObjClass = c, Inputs = Map.empty, Props = props\<rparr>"

definition Effects_example :: "string list \<Rightarrow> string list Effects" where
  "Effects_example w = \<lparr>World = w, Calls = []\<rparr>"

text \<open>
  The example records with two more: \<open>N3\<close>, of a type that has a class and is not in
  \<open>Expressions\<close>, and \<open>N4\<close>, of an ignored type.
\<close>

definition Records_unsupported :: "json list" where
  "Records_unsupported =
     Records_example @
     [Export_example ''N3'' ''MaterialExpressionHairColor'' [],
      Export_example ''N4'' ''MaterialExpressionComposite'' []]"

definition Exports_unsupported :: "(FName \<times> FImportData) list" where
  "Exports_unsupported = map (\<lambda>v. (Name_of v, ImportData_of ''M_Example'' v)) Records_unsupported"


text \<open>
  The two records of scenario A of the specification, as it writes them, with a host
  that finds a class under every path and takes an object name as the name it refers
  to; and the two records with the type names \<open>PropagateExpressions\<close> compares with and the
  reference of input \<open>A\<close> under \<open>Expression\<close>, where \<open>GetExpressionName\<close> reads it.
\<close>

definition Records_ScenarioA_literal :: "json list" where
  "Records_ScenarioA_literal =
     [JObj [(''Name'', JStr ''N1''), (''Type'', JStr ''Add''),
            (''Properties'',
             JObj [(''A'', JObj [(''ObjectName'', JStr ''N2'')]), (''B'', JObj []),
                   (''ConstA'', JNum 0), (''ConstB'', JNum 5)])],
      JObj [(''Name'', JStr ''N2''), (''Type'', JStr ''Constant''),
            (''Properties'', JObj [(''R'', JNum 3)])]]"

definition Host_ScenarioA_literal :: "string list Host" where
  "Host_ScenarioA_literal =
     Host_example
       \<lparr>AllJsonObjects := Records_ScenarioA_literal,
        Expressions := [''Add'', ''Constant''],
        GetExportNameOfSubobject := (\<lambda>PackageIndex. PackageIndex),
        FindObject_UClass := (\<lambda>path. True)\<rparr>"

definition Records_ScenarioA :: "string \<Rightarrow> json list" where
  "Records_ScenarioA ref =
     [JObj [(''Name'', JStr ''N1''), (''Type'', JStr ''MaterialExpressionAdd''),
            (''Properties'',
             JObj [(''A'', JObj [(''Expression'', JObj [(''ObjectName'', JStr ref)])]),
                   (''B'', JObj []), (''ConstA'', JNum 0), (''ConstB'', JNum 5)])],
      JObj [(''Name'', JStr ''N2''), (''Type'', JStr ''MaterialExpressionConstant''),
            (''Properties'', JObj [(''R'', JNum 3)])]]"

definition Ref_ScenarioA :: string where
  "Ref_ScenarioA = ''MaterialExpressionConstant'' @ [CHR 0x27] @ ''M_Example:N2'' @ [CHR 0x27]"

definition Host_ScenarioA :: "string list Host" where
  "Host_ScenarioA = Host_example\<lparr>AllJsonObjects := Records_ScenarioA Ref_ScenarioA\<rparr>"


section \<open>Facts about the statements of the model\<close>

lemma assign_if_simps [simp]:
  "assign_if None f t = t"
  "assign_if (Some v) f t = f v t"
  by (simp_all add: assign_if_def)

lemma truncate_reinterpret:
  "FExpressionInput.truncate (reinterpret_MaterialInput In) = In"
  by (simp add: reinterpret_MaterialInput_def FExpressionInput.extend_def
      FExpressionInput.truncate_def)

lemma truncate_assign_if:
  "(\<And>v t. FExpressionInput.truncate (f v t) = FExpressionInput.truncate t) \<Longrightarrow>
   FExpressionInput.truncate (assign_if got f t) = FExpressionInput.truncate t"
  by (cases got) simp_all

lemma truncate_update [simp]:
  "FExpressionInput.truncate (t\<lparr>UseConstant := b\<rparr>) = FExpressionInput.truncate t"
  "FExpressionInput.truncate (t\<lparr>Constant := c\<rparr>) = FExpressionInput.truncate t"
  by (simp_all add: FExpressionInput.truncate_def)

text \<open>
  The input \<open>PopulateExpressionInput\<close> returns does not depend on its \<open>Type\<close>
  argument: what the three variants write is cut off by the copy into \<open>Input\<close>.
\<close>

lemma PopulateExpressionInput_Type:
  "PopulateExpressionInput J p T = PopulateExpressionInput J p Type_default"
  by (simp add: PopulateExpressionInput_def Let_def Type_default_def truncate_assign_if
      truncate_reinterpret)

lemma Expression_assign_if:
  "(\<And>v t. Expression (f v t) = Expression t) \<Longrightarrow> Expression (assign_if got f t) = Expression t"
  by (cases got) simp_all

lemma Expression_Populate [simp]:
  "Expression (PopulateExpressionInput J p T) = Some p"
  unfolding PopulateExpressionInput_Type [of J p T]
  by (simp add: PopulateExpressionInput_def Let_def Type_default_def Expression_assign_if
      FExpressionInput_ctor_def)

text \<open>The definitions a run of the model on concrete exports unfolds.\<close>

lemmas json_defs =
  TryGetField_def IsNull_def AsObject_def TryGetObjectField_def TryGetStringField_def
  TryGetNumberField_def TryGetBoolField_def TryGetArrayField_def GetStringField_def
  GetObjectField_def Split_Left_def

lemmas input_defs =
  FExpressionInput_ctor_def OverrideParameterName_default_def Type_default_def
  GetExpressionName_def PopulateExpressionInput_def CreateExpressionInput_def
  PopulateExpressionOutput_def PopulateFuncExpressionOutput_def PopulateFuncExpressionInput_def
  reinterpret_MaterialInput_def FExpressionInput.extend_def FExpressionInput.truncate_def
  FMaterialInput.fields_def

lemmas member_defs =
  set_Input_def set_Prop_def get_Object_def get_Expression_def assign_Number_def
  assign_String_def assign_Bool_def assign_Enum_def assign_Input_if_found_def
  assign_ChannelName_def record_call_def AppendNotification_def call_LoadObject_def
  call_HandleReference_def

lemmas branch_defs =
  MaterialExpressionConstant_def MaterialExpressionAdd_def
  MaterialExpressionRuntimeVirtualTextureSample_def
  MaterialExpressionRuntimeVirtualTextureSampleParameter_def LoadObject_or_HandleReference_def
  MaterialExpressionMaterialFunctionCall_def MaterialExpressionCollectionParameter_def
  get_Inputs_array_def MaterialExpressionQualitySwitch_def kind_branches_def
  TextureSample_parent_def TextureSampleParameter_parent_def
  MaterialGraphNode_ExpressionWrapper_def

lemmas pass_defs =
  FindEditorOnlyData_def NewObject_def CreateEmptyExpression_def ConstructExpressions_def
  AddUnique_def PropagateExpression_def

lemmas example_defs =
  GetExportNameOfSubobject_example_def Host_example_def ObjectName_ref_def Expression_ref_def
  Asset_ref_def Export_example_def Records_example_def Parent_example_def Editor_empty_def
  Exports_example_def Created_example_def Editor_created_example_def Object_example_def
  Effects_example_def Records_unsupported_def Exports_unsupported_def



section \<open>Partition\<close>










section \<open>Every input the wire pass sets targets the created map\<close>
lemma assign_if_cases:
  "assign_if got f t = (case got of Some v \<Rightarrow> f v t | None \<Rightarrow> t)"
  by (simp add: assign_if_def)

lemma targets_in_ctor [simp]: "targets_in cm FExpressionInput_ctor"
  by (simp add: targets_in_def FExpressionInput_ctor_def)

lemma targets_in_Populate [simp]:
  "targets_in cm (PopulateExpressionInput J p T) = (p \<in> ran cm)"
  by (simp add: targets_in_def)

lemma targets_in_Create [simp]:
  "targets_in cm (CreateExpressionInput E P cm k)"
  by (auto simp: CreateExpressionInput_def Let_def ran_def split: option.split)


lemma wired_set_Prop [simp]: "wired_into cm (set_Prop k v nd) = wired_into cm nd"
  by (simp add: wired_into_def set_Prop_def)

lemma wired_set_Input:
  "wired_into cm nd \<Longrightarrow> list_all (targets_in cm) (wiring_inputs w) \<Longrightarrow> wired_into cm (set_Input k w nd)"
  by (simp add: wired_into_def set_Input_def)

lemma wired_set_Input_Create [simp]:
  "wired_into cm nd \<Longrightarrow> wired_into cm (set_Input k (WInput (CreateExpressionInput E P cm k')) nd)"
  by (rule wired_set_Input) simp_all

lemma wired_assign_if:
  "wired_into cm nd \<Longrightarrow> (\<And>v t. wired_into cm t \<Longrightarrow> wired_into cm (f v t)) \<Longrightarrow>
   wired_into cm (assign_if got f nd)"
  by (cases got) simp_all

lemma wired_assign [simp]:
  "wired_into cm (assign_Number P k nd) = wired_into cm nd"
  "wired_into cm (assign_String P k nd) = wired_into cm nd"
  "wired_into cm (assign_Bool P k nd) = wired_into cm nd"
  "wired_into cm (assign_Enum E T P k nd) = wired_into cm nd"
  "wired_into cm (assign_ChannelName C k nd) = wired_into cm nd"
  by (simp_all add: assign_Number_def assign_String_def assign_Bool_def assign_Enum_def
      assign_ChannelName_def assign_if_cases split: option.split)

lemma wired_assign_Input_if_found [simp]:
  "wired_into cm nd \<Longrightarrow> wired_into cm (assign_Input_if_found E P cm k nd)"
  by (auto simp: assign_Input_if_found_def assign_if_cases ran_def intro!: wired_set_Input
      split: option.split)

lemma wired_call_LoadObject [simp]:
  "wired_into cm (fst (call_LoadObject E R m nd fx)) = wired_into cm nd"
  by (simp add: call_LoadObject_def Let_def)

lemma wired_LoadObject_or_HandleReference [simp]:
  "wired_into cm (fst (LoadObject_or_HandleReference E M R m nd fx)) = wired_into cm nd"
  by (simp add: LoadObject_or_HandleReference_def Let_def split_beta)

lemma wired_Constant [simp]:
  "wired_into cm (MaterialExpressionConstant P nd) = wired_into cm nd"
  by (simp add: MaterialExpressionConstant_def)

lemma wired_Add [simp]:
  "wired_into cm nd \<Longrightarrow> wired_into cm (MaterialExpressionAdd E cm P nd)"
  by (simp add: MaterialExpressionAdd_def Let_def)

lemma wired_assign_if_pair:
  "wired_into cm nd \<Longrightarrow> (\<And>v. wired_into cm (fst (f v (nd, fx)))) \<Longrightarrow>
   wired_into cm (fst (assign_if got f (nd, fx)))"
  by (cases got) simp_all

lemma wired_RVT [simp]:
  "wired_into cm nd \<Longrightarrow> wired_into cm (fst (MaterialExpressionRuntimeVirtualTextureSample E cm P nd fx))"
  by (simp add: MaterialExpressionRuntimeVirtualTextureSample_def Let_def split_beta
      wired_assign_if_pair)

lemma wired_RVTP [simp]:
  "wired_into cm (MaterialExpressionRuntimeVirtualTextureSampleParameter P nd) = wired_into cm nd"
  by (simp add: MaterialExpressionRuntimeVirtualTextureSampleParameter_def Let_def)

lemma targets_in_PopulateFunc [simp]:
  "targets_in cm (snd (PopulateFuncExpressionInput E J cm))"
  by (auto simp: PopulateFuncExpressionInput_def ran_def split: option.split)

lemma wired_FunctionCall [simp]:
  "wired_into cm nd \<Longrightarrow> wired_into cm (fst (MaterialExpressionMaterialFunctionCall E cm P nd fx))"
  by (auto simp: MaterialExpressionMaterialFunctionCall_def Let_def split_beta
      list_all_iff intro!: wired_set_Input wired_assign_if wired_assign_if_pair)

lemma wired_Collection [simp]:
  "wired_into cm nd \<Longrightarrow> wired_into cm (fst (MaterialExpressionCollectionParameter E P nd fx))"
  by (simp add: MaterialExpressionCollectionParameter_def Let_def split_beta
      wired_assign_if_pair)





lemma wired_TextureSample_parent [simp]:
  "wired_into cm nd \<Longrightarrow> wired_into cm (TextureSample_parent E cm P nd)"
  by (simp add: TextureSample_parent_def Let_def)

lemma wired_TextureSampleParameter_parent [simp]:
  "wired_into cm (TextureSampleParameter_parent E P nd) = wired_into cm nd"
  by (cases "TryGetObjectField P ''ChannelNames''")
     (simp_all add: TextureSampleParameter_parent_def Let_def)

lemma wired_assign_if_eq:
  "(\<And>v t. wired_into cm (f v t) = wired_into cm t) \<Longrightarrow>
   wired_into cm (assign_if got f nd) = wired_into cm nd"
  by (cases got) simp_all

lemma wired_assign_if_pair_eq:
  "(\<And>v nd fx. wired_into cm (fst (f v (nd, fx))) = wired_into cm nd) \<Longrightarrow>
   wired_into cm (fst (assign_if got f x)) = wired_into cm (fst x)"
  by (cases got; cases x) simp_all

lemma wired_Wrapper [simp]:
  "wired_into cm (fst (MaterialGraphNode_ExpressionWrapper E Par nd J fx)) = wired_into cm nd"
  by (simp add: MaterialGraphNode_ExpressionWrapper_def Let_def split_beta
      wired_assign_if_eq wired_assign_if_pair_eq)









section \<open>What a statement does to the members\<close>

lemma Props_set:
  "Props (set_Prop k v nd) = (Props nd)(k \<mapsto> v)"
  "Props (set_Input k w nd) = Props nd"
  by (simp_all add: set_Prop_def set_Input_def)

lemma Inputs_set:
  "Inputs (set_Prop k v nd) = Inputs nd"
  "Inputs (set_Input k w nd) = (Inputs nd)(k \<mapsto> w)"
  by (simp_all add: set_Prop_def set_Input_def)

lemma Props_set_apply [simp]:
  "Props (set_Prop k v nd) k' = (if k' = k then Some v else Props nd k')"
  "Props (set_Input k w nd) k' = Props nd k'"
  by (simp_all add: set_Prop_def set_Input_def)

lemma Inputs_set_apply [simp]:
  "Inputs (set_Prop k v nd) k' = Inputs nd k'"
  "Inputs (set_Input k w nd) k' = (if k' = k then Some w else Inputs nd k')"
  by (simp_all add: set_Prop_def set_Input_def)

lemma ObjClass_set [simp]:
  "ObjClass (set_Prop k v nd) = ObjClass nd"
  "ObjClass (set_Input k w nd) = ObjClass nd"
  by (simp_all add: set_Prop_def set_Input_def)

lemma ObjName_set [simp]:
  "ObjName (set_Prop k v nd) = ObjName nd"
  "ObjName (set_Input k w nd) = ObjName nd"
  by (simp_all add: set_Prop_def set_Input_def)

lemma Props_assign_same [simp]:
  "Props (assign_Number P k nd) k =
     (case TryGetNumberField P k of None \<Rightarrow> Props nd k | Some v \<Rightarrow> Some (PNum v))"
  "Props (assign_String P k nd) k =
     (case TryGetStringField P k of None \<Rightarrow> Props nd k | Some v \<Rightarrow> Some (PStr v))"
  "Props (assign_Bool P k nd) k =
     (case TryGetBoolField P k of None \<Rightarrow> Props nd k | Some v \<Rightarrow> Some (PBool v))"
  "Props (assign_Enum E T P k nd) k =
     (case TryGetStringField P k of None \<Rightarrow> Props nd k
      | Some s \<Rightarrow> Some (PEnum (GetValueByNameString E T s)))"
  by (simp_all add: assign_Number_def assign_String_def assign_Bool_def assign_Enum_def
      assign_if_def split: option.split)

lemma Props_assign_other [simp]:
  "k' \<noteq> k \<Longrightarrow> Props (assign_Number P k nd) k' = Props nd k'"
  "k' \<noteq> k \<Longrightarrow> Props (assign_String P k nd) k' = Props nd k'"
  "k' \<noteq> k \<Longrightarrow> Props (assign_Bool P k nd) k' = Props nd k'"
  "k' \<noteq> k \<Longrightarrow> Props (assign_Enum E T P k nd) k' = Props nd k'"
  by (simp_all add: assign_Number_def assign_String_def assign_Bool_def assign_Enum_def
      assign_if_def split: option.split)

lemma Inputs_assign [simp]:
  "Inputs (assign_Number P k nd) = Inputs nd"
  "Inputs (assign_String P k nd) = Inputs nd"
  "Inputs (assign_Bool P k nd) = Inputs nd"
  "Inputs (assign_Enum E T P k nd) = Inputs nd"
  "Inputs (assign_ChannelName C c nd) = Inputs nd"
  by (simp_all add: assign_Number_def assign_String_def assign_Bool_def assign_Enum_def
      assign_ChannelName_def assign_if_def set_Prop_def split: option.split)

lemma ObjClass_assign [simp]:
  "ObjClass (assign_Number P k nd) = ObjClass nd"
  "ObjClass (assign_String P k nd) = ObjClass nd"
  "ObjClass (assign_Bool P k nd) = ObjClass nd"
  "ObjClass (assign_Enum E T P k nd) = ObjClass nd"
  "ObjClass (assign_ChannelName C c nd) = ObjClass nd"
  "ObjClass (assign_Input_if_found E P cm k nd) = ObjClass nd"
  by (simp_all add: assign_Number_def assign_String_def assign_Bool_def assign_Enum_def
      assign_ChannelName_def assign_Input_if_found_def assign_if_def split: option.split)

lemma ObjName_assign [simp]:
  "ObjName (assign_Number P k nd) = ObjName nd"
  "ObjName (assign_String P k nd) = ObjName nd"
  "ObjName (assign_Bool P k nd) = ObjName nd"
  "ObjName (assign_Enum E T P k nd) = ObjName nd"
  "ObjName (assign_ChannelName C c nd) = ObjName nd"
  "ObjName (assign_Input_if_found E P cm k nd) = ObjName nd"
  by (simp_all add: assign_Number_def assign_String_def assign_Bool_def assign_Enum_def
      assign_ChannelName_def assign_Input_if_found_def assign_if_def split: option.split)

lemma Props_assign_Input_if_found [simp]:
  "Props (assign_Input_if_found E P cm k nd) = Props nd"
  by (simp add: assign_Input_if_found_def assign_if_def set_Input_def split: option.split)

lemma call_LoadObject_fst [simp]:
  "fst (call_LoadObject E R m nd fx) =
     set_Prop m (PObject (fst (LoadObject E R (get_Object nd m) (World fx)))) nd"
  by (simp add: call_LoadObject_def Let_def)

lemma call_LoadObject_snd [simp]:
  "snd (call_LoadObject E R m nd fx) =
     \<lparr>World = snd (LoadObject E R (get_Object nd m) (World fx)),
      Calls = Calls fx @ [LoadObject_call R]\<rparr>"
  by (simp add: call_LoadObject_def Let_def)

lemma fst_assign_if_pair:
  "(\<And>v nd fx. g (fst (f v (nd, fx))) = g nd) \<Longrightarrow> g (fst (assign_if got f x)) = g (fst x)"
  by (cases got; cases x) simp_all


lemma get_Object_set_Prop [simp]:
  "get_Object (set_Prop k v nd) k' = (if k' = k then (case v of PObject obj \<Rightarrow> obj | _ \<Rightarrow> None)
                                     else get_Object nd k')"
  by (simp add: get_Object_def set_Prop_def)

lemma get_Object_assign_other [simp]:
  "k' \<noteq> k \<Longrightarrow> get_Object (assign_Number P k nd) k' = get_Object nd k'"
  "k' \<noteq> k \<Longrightarrow> get_Object (assign_String P k nd) k' = get_Object nd k'"
  "k' \<noteq> k \<Longrightarrow> get_Object (assign_Bool P k nd) k' = get_Object nd k'"
  "k' \<noteq> k \<Longrightarrow> get_Object (assign_Enum E T P k nd) k' = get_Object nd k'"
  by (simp_all add: get_Object_def)

lemma get_Object_set_Input [simp]:
  "get_Object (set_Input k w nd) k' = get_Object nd k'"
  by (simp add: get_Object_def)

lemma get_Object_assign_if:
  "(\<And>v t. get_Object (f v t) k = get_Object t k) \<Longrightarrow>
   get_Object (assign_if got f nd) k = get_Object nd k"
  by (cases got) simp_all


section \<open>Constants of an input that does not resolve\<close>





section \<open>Enum members\<close>





section \<open>Missing external references\<close>

lemma recovers_LoadObject_or_HandleReference:
  "recovers E Missing Ref (get_Object nd member) fx
     (get_Object (fst (LoadObject_or_HandleReference E Missing Ref member nd fx)) member)
     (snd (LoadObject_or_HandleReference E Missing Ref member nd fx))"
  by (simp add: recovers_def LoadObject_or_HandleReference_def call_HandleReference_def
      AppendNotification_def record_call_def Let_def split_beta)

text \<open>
  C6, as amended. For the \<open>MaterialFunction\<close> of a function call and the \<open>Collection\<close> of a
  collection parameter, when the bag has the reference: the direct load, and when it
  returns null the path before the first dot of \<open>ObjectPath\<close> is passed to
  \<open>HandleReference\<close>; when the hook succeeds the load is made exactly once more, when it
  fails the notification \<open>Material Function Missing\<close> or \<open>Material Collection Missing\<close> is
  sent and the member stays null. The branch returns in every case. The other asset
  pointers of the file are loaded without the hook.
\<close>

theorem missing_reference_recovery:
  "(TryGetObjectField Properties ''MaterialFunction'' = Some Ref \<longrightarrow>
      recovers E ''Material Function Missing: '' Ref (get_Object nd ''MaterialFunction'') fx
        (get_Object (fst (MaterialExpressionMaterialFunctionCall E cm Properties nd fx)) ''MaterialFunction'')
        (snd (MaterialExpressionMaterialFunctionCall E cm Properties nd fx))) \<and>
   (TryGetObjectField Properties ''Collection'' = Some Ref \<longrightarrow>
      recovers E ''Material Collection Missing: '' Ref (get_Object nd ''Collection'') fx
        (get_Object (fst (MaterialExpressionCollectionParameter E Properties nd fx)) ''Collection'')
        (snd (MaterialExpressionCollectionParameter E Properties nd fx)))"
proof (intro conjI impI)
  assume f: "TryGetObjectField Properties ''MaterialFunction'' = Some Ref"
  show "recovers E ''Material Function Missing: '' Ref (get_Object nd ''MaterialFunction'') fx
        (get_Object (fst (MaterialExpressionMaterialFunctionCall E cm Properties nd fx)) ''MaterialFunction'')
        (snd (MaterialExpressionMaterialFunctionCall E cm Properties nd fx))"
    using recovers_LoadObject_or_HandleReference
      [of E "''Material Function Missing: ''" Ref nd "''MaterialFunction''" fx]
    by (simp add: f MaterialExpressionMaterialFunctionCall_def Let_def split_beta
        get_Object_assign_if)
next
  assume c: "TryGetObjectField Properties ''Collection'' = Some Ref"
  show "recovers E ''Material Collection Missing: '' Ref (get_Object nd ''Collection'') fx
        (get_Object (fst (MaterialExpressionCollectionParameter E Properties nd fx)) ''Collection'')
        (snd (MaterialExpressionCollectionParameter E Properties nd fx))"
    using recovers_LoadObject_or_HandleReference
      [of E "''Material Collection Missing: ''" Ref nd "''Collection''" fx]
    by (simp add: c MaterialExpressionCollectionParameter_def Let_def split_beta)
qed

text \<open>
  A function call whose material function does not load at first and that the hook of the
  example host can fetch: load, hook, load.
\<close>

theorem missing_reference_recovery_witness:
  "TryGetObjectField [(''MaterialFunction'', JObj (Asset_ref ''/Game/Functions/MF_Remote.0''))]
     ''MaterialFunction'' = Some (Asset_ref ''/Game/Functions/MF_Remote.0'') \<and>
   get_Object
     (fst (MaterialExpressionMaterialFunctionCall Host_example Created_example
        [(''MaterialFunction'', JObj (Asset_ref ''/Game/Functions/MF_Remote.0''))]
        (Object_example ''/Script/Engine.MaterialExpressionMaterialFunctionCall'' ''F1'' Map.empty)
        (Effects_example []))) ''MaterialFunction'' = Some ''/Game/Functions/MF_Remote.0'' \<and>
   Calls
     (snd (MaterialExpressionMaterialFunctionCall Host_example Created_example
        [(''MaterialFunction'', JObj (Asset_ref ''/Game/Functions/MF_Remote.0''))]
        (Object_example ''/Script/Engine.MaterialExpressionMaterialFunctionCall'' ''F1'' Map.empty)
        (Effects_example []))) =
     [LoadObject_call (Asset_ref ''/Game/Functions/MF_Remote.0''),
      HandleReference_call ''/Game/Functions/MF_Remote'',
      LoadObject_call (Asset_ref ''/Game/Functions/MF_Remote.0'')]"
  using missing_reference_recovery
    [where E = Host_example and cm = Created_example
       and Properties = "[(''MaterialFunction'', JObj (Asset_ref ''/Game/Functions/MF_Remote.0''))]"
       and Ref = "Asset_ref ''/Game/Functions/MF_Remote.0''"
       and nd = "Object_example ''/Script/Engine.MaterialExpressionMaterialFunctionCall'' ''F1'' Map.empty"
       and fx = "Effects_example []"]
  by (simp add: recovers_def json_defs example_defs Asset_ref_def Object_example_def
      Effects_example_def get_Object_def Let_def)

text \<open>
  C6 as stated fails for the \<open>VirtualTexture\<close> of a runtime-virtual-texture sample: the
  direct load returns null and the notification is sent without a call of the hook.
\<close>

theorem VirtualTexture_no_recovery_counterexample:
  "fst (LoadObject Host_example (Asset_ref ''/Game/VT/RVT_Missing.0'') None []) = None \<and>
   get_Object
     (fst (MaterialExpressionRuntimeVirtualTextureSample Host_example Created_example
        [(''VirtualTexture'', JObj (Asset_ref ''/Game/VT/RVT_Missing.0''))]
        (Object_example ''/Script/Engine.MaterialExpressionRuntimeVirtualTextureSample'' ''V1'' Map.empty)
        (Effects_example []))) ''VirtualTexture'' = None \<and>
   Calls
     (snd (MaterialExpressionRuntimeVirtualTextureSample Host_example Created_example
        [(''VirtualTexture'', JObj (Asset_ref ''/Game/VT/RVT_Missing.0''))]
        (Object_example ''/Script/Engine.MaterialExpressionRuntimeVirtualTextureSample'' ''V1'' Map.empty)
        (Effects_example []))) =
     [LoadObject_call (Asset_ref ''/Game/VT/RVT_Missing.0''),
      AppendNotification_call ''Virtual Texture Sample Missing: /Game/VT/RVT_Missing'']"
  by (simp add: json_defs input_defs member_defs branch_defs example_defs Asset_ref_def
      Object_example_def Effects_example_def Let_def)


section \<open>The Inputs array of a quality switch\<close>

lemma QualitySwitch_Inputs_loop_length:
  "QualitySwitch_Inputs_loop E cm vs i arr = Inr arr' \<Longrightarrow> length arr' = length arr"
  by (induction vs arbitrary: i arr) (auto simp: Let_def split: option.splits if_splits)

lemma QualitySwitch_Inputs_loop_fault:
  "(\<exists>f. QualitySwitch_Inputs_loop E cm vs i arr = Inl f) \<longleftrightarrow>
   (\<exists>j<length vs. length arr \<le> i + j \<and> resolves E cm (vs ! j))"
proof (induction vs arbitrary: i arr)
  case Nil
  then show ?case by simp
next
  case (Cons v vs)
  have shift: "(\<exists>j<length (v # vs). length arr \<le> i + j \<and> resolves E cm ((v # vs) ! j)) \<longleftrightarrow>
      (length arr \<le> i \<and> resolves E cm v) \<or>
      (\<exists>j<length vs. length arr \<le> Suc i + j \<and> resolves E cm (vs ! j))"
    (is "?L \<longleftrightarrow> ?A \<or> ?B")
  proof
    assume ?L
    then obtain j where j: "j < length (v # vs)" "length arr \<le> i + j" "resolves E cm ((v # vs) ! j)"
      by blast
    show "?A \<or> ?B"
    proof (cases j)
      case 0
      with j show ?thesis by simp
    next
      case (Suc k)
      with j have "k < length vs \<and> length arr \<le> Suc i + k \<and> resolves E cm (vs ! k)" by simp
      then show ?thesis by blast
    qed
  next
    assume "?A \<or> ?B"
    then show ?L
    proof
      assume ?A
      then have "0 < length (v # vs) \<and> length arr \<le> i + 0 \<and> resolves E cm ((v # vs) ! 0)" by simp
      then show ?L by blast
    next
      assume ?B
      then obtain k where "k < length vs" "length arr \<le> Suc i + k" "resolves E cm (vs ! k)" by blast
      then have "Suc k < length (v # vs) \<and> length arr \<le> i + Suc k \<and> resolves E cm ((v # vs) ! Suc k)"
        by simp
      then show ?L by blast
    qed
  qed
  show ?case
  proof (cases "cm (GetExpressionName E (AsObject v) OverrideParameterName_default)")
    case None
    then have "\<not> resolves E cm v" by (simp add: resolves_def)
    with None Cons.IH [of "Suc i" arr] show ?thesis unfolding shift by (simp add: Let_def)
  next
    case (Some p)
    then have r: "resolves E cm v" by (simp add: resolves_def)
    show ?thesis
    proof (cases "i < length arr")
      case True
      with Some r Cons.IH [of "Suc i" "arr[i := PopulateExpressionInput (AsObject v) p Type_default]"]
      show ?thesis unfolding shift by (simp add: Let_def)
    next
      case False
      with Some r show ?thesis unfolding shift by (simp add: Let_def)
    qed
  qed
qed

text \<open>
  C10, as amended. The handler goes through the JSON \<open>Inputs\<close> array with an index that
  counts every entry and writes \<open>Inputs[i]\<close>, unchecked, for the entries whose name is in
  the created map. When the array has at most as many entries as \<open>Inputs\<close> has room, no
  write is out of range. That bound is sufficient and not necessary: a write is out of
  range exactly when an entry at an index from the capacity on resolves. The capacity of
  a member that was never assigned is \<open>EMaterialQualityLevel::Num\<close>.
\<close>

theorem QualitySwitch_Inputs_in_bounds:
  fixes nd :: "'p UMaterialExpression"
  assumes "TryGetArrayField Properties ''Inputs'' = Some InputsArr"
  shows "(length InputsArr \<le> length (get_Inputs_array E nd) \<longrightarrow>
            (\<exists>nd'. MaterialExpressionQualitySwitch E cm Properties nd = Inr nd')) \<and>
         ((\<exists>f. MaterialExpressionQualitySwitch E cm Properties nd = Inl f) \<longleftrightarrow>
            (\<exists>j<length InputsArr. length (get_Inputs_array E nd) \<le> j \<and> resolves E cm (InputsArr ! j))) \<and>
         (Inputs nd ''Inputs'' = None \<longrightarrow> length (get_Inputs_array E nd) = QualityLevel_Num E)"
proof -
  let ?nd = "set_Input ''Default'' (WInput (CreateExpressionInput E Properties cm ''Default'')) nd"
  have a: "get_Inputs_array E ?nd = get_Inputs_array E nd"
    by (simp add: get_Inputs_array_def set_Input_def)
  have f: "(\<exists>f. MaterialExpressionQualitySwitch E cm Properties nd = Inl f) \<longleftrightarrow>
           (\<exists>f. QualitySwitch_Inputs_loop E cm InputsArr 0 (get_Inputs_array E nd) = Inl f)"
    using assms(1) a by (auto simp: MaterialExpressionQualitySwitch_def Let_def split: sum.splits)
  have c: "(\<exists>f. MaterialExpressionQualitySwitch E cm Properties nd = Inl f) \<longleftrightarrow>
            (\<exists>j<length InputsArr. length (get_Inputs_array E nd) \<le> j \<and> resolves E cm (InputsArr ! j))"
    unfolding f QualitySwitch_Inputs_loop_fault by simp
  have s: "\<exists>nd'. MaterialExpressionQualitySwitch E cm Properties nd = Inr nd'"
    if "length InputsArr \<le> length (get_Inputs_array E nd)"
  proof (cases "MaterialExpressionQualitySwitch E cm Properties nd")
    case (Inl f)
    then have "\<exists>j<length InputsArr. length (get_Inputs_array E nd) \<le> j \<and> resolves E cm (InputsArr ! j)"
      using c by blast
    with that show ?thesis by auto
  next
    case (Inr nd')
    then show ?thesis by blast
  qed
  have d: "length (get_Inputs_array E nd) = QualityLevel_Num E" if "Inputs nd ''Inputs'' = None"
    using that by (simp add: get_Inputs_array_def)
  from c s d show ?thesis by blast
qed

text \<open>Three entries for a capacity of four.\<close>

theorem QualitySwitch_Inputs_in_bounds_witness:
  "TryGetArrayField [(''Inputs'', JArr [Expression_ref ''N1'', Expression_ref ''N9'', Expression_ref ''N2''])]
     ''Inputs'' = Some [Expression_ref ''N1'', Expression_ref ''N9'', Expression_ref ''N2''] \<and>
   length [Expression_ref ''N1'', Expression_ref ''N9'', Expression_ref ''N2'']
     \<le> length (get_Inputs_array Host_example
          (Object_example ''/Script/Engine.MaterialExpressionQualitySwitch'' ''Q1'' Map.empty)) \<and>
   (\<exists>nd'. MaterialExpressionQualitySwitch Host_example Created_example
      [(''Inputs'', JArr [Expression_ref ''N1'', Expression_ref ''N9'', Expression_ref ''N2''])]
      (Object_example ''/Script/Engine.MaterialExpressionQualitySwitch'' ''Q1'' Map.empty) = Inr nd')"
proof -
  have h: "TryGetArrayField [(''Inputs'', JArr [Expression_ref ''N1'', Expression_ref ''N9'', Expression_ref ''N2''])]
     ''Inputs'' = Some [Expression_ref ''N1'', Expression_ref ''N9'', Expression_ref ''N2'']"
    by (simp add: TryGetArrayField_def)
  have l: "length [Expression_ref ''N1'', Expression_ref ''N9'', Expression_ref ''N2'']
     \<le> length (get_Inputs_array Host_example
          (Object_example ''/Script/Engine.MaterialExpressionQualitySwitch'' ''Q1'' Map.empty))"
    by (simp add: get_Inputs_array_def Object_example_def Host_example_def)
  from QualitySwitch_Inputs_in_bounds [OF h, of Host_example
      "Object_example ''/Script/Engine.MaterialExpressionQualitySwitch'' ''Q1'' Map.empty" Created_example]
    h l show ?thesis by blast
qed

text \<open>
  C10 as stated fails in its last part: five entries for a capacity of four, the fifth
  unconnected, and every write is in range.
\<close>

theorem QualitySwitch_longer_Inputs_counterexample:
  "length (get_Inputs_array Host_example
     (Object_example ''/Script/Engine.MaterialExpressionQualitySwitch'' ''Q1'' Map.empty)) = 4 \<and>
   length [Expression_ref ''N1'', Expression_ref ''N2'', Expression_ref ''N1'', Expression_ref ''N2'',
           JObj [(''Expression'', JNull)]] = 5 \<and>
   \<not> resolves Host_example Created_example (JObj [(''Expression'', JNull)]) \<and>
   (case MaterialExpressionQualitySwitch Host_example Created_example
      [(''Inputs'', JArr [Expression_ref ''N1'', Expression_ref ''N2'', Expression_ref ''N1'',
                          Expression_ref ''N2'', JObj [(''Expression'', JNull)]])]
      (Object_example ''/Script/Engine.MaterialExpressionQualitySwitch'' ''Q1'' Map.empty) of
      Inl f \<Rightarrow> False
    | Inr nd' \<Rightarrow>
        map_option (\<lambda>w. map Expression (wiring_inputs w)) (Inputs nd' ''Inputs'') =
          Some [Some ''N1'', Some ''N2'', Some ''N1'', Some ''N2''])"
  by (simp add: json_defs input_defs member_defs branch_defs example_defs Object_example_def
      resolves_def Let_def eval_nat_numeral)


section \<open>The create pass\<close>

lemma CreateEmptyExpression_ignored:
  "aType \<in> set (IgnoredExpressions E) \<Longrightarrow> CreateEmptyExpression E alloc Name aType ed = Inr (None, ed)"
  by (simp add: CreateEmptyExpression_def)

lemma CreateEmptyExpression_not_ignored:
  "aType \<notin> set (IgnoredExpressions E) \<Longrightarrow>
   CreateEmptyExpression E alloc Name aType ed =
     (case ExpressionClass_of E aType of
        None \<Rightarrow> Inl NewObject_nullptr_Class
      | Some c \<Rightarrow>
          Inr (Some (alloc Name),
               ed\<lparr>Fx := (Fx ed)\<lparr>Calls := Calls (Fx ed) @ Missing_support E aType\<rparr>,
                  Heap := (Heap ed)(alloc Name \<mapsto> Object_empty Name c)\<rparr>))"
  by (simp add: CreateEmptyExpression_def ExpressionClass_of_def Missing_support_def NewObject_def
      Object_empty_def record_call_def Let_def)

lemma ConstructExpressions_loop_Cons:
  "ConstructExpressions_loop E alloc aOuter (Name # rest) Exports cm ed =
     (case created_Type E aOuter Exports Name of
        None \<Rightarrow> ConstructExpressions_loop E alloc aOuter rest Exports cm ed
      | Some t \<Rightarrow>
          (case ExpressionClass_of E t of
             None \<Rightarrow> Inl NewObject_nullptr_Class
           | Some c \<Rightarrow>
               ConstructExpressions_loop E alloc aOuter rest Exports (cm(Name \<mapsto> alloc Name))
                 (ed\<lparr>Fx := (Fx ed)\<lparr>Calls := Calls (Fx ed) @ Missing_support E t\<rparr>,
                     Heap := (Heap ed)(alloc Name \<mapsto> Object_empty Name c)\<rparr>)))"
  by (simp add: created_Type_def CreateEmptyExpression_ignored CreateEmptyExpression_not_ignored
      split: option.split)













section \<open>The inputs an object has after its turn\<close>

lemma PropagateExpression_wire_node:
  "PropagateExpression E Parent cm bSubgraph aType Properties Expr ed =
     (case Heap ed Expr of
        None \<Rightarrow> Inl Expression_not_an_object
      | Some nd \<Rightarrow>
          (case wire_node E Parent cm aType Properties nd (Fx ed) of
             Inl f \<Rightarrow> Inl f
           | Inr r \<Rightarrow>
               Inr \<lparr>Fx = snd r, Heap = (Heap ed)(Expr \<mapsto> fst r),
                    ExpressionCollection = attach Parent bSubgraph Expr (ExpressionCollection ed)\<rparr>))"
  by (simp add: PropagateExpression_def wire_node_def attach_def Let_def split_beta
      split: option.split sum.split)

declare Inputs_set [simp]

declare Inputs_set [simp]

lemma Inputs_assign_if:
  "(\<And>v t. Inputs (f v t) = Inputs t) \<Longrightarrow> Inputs (assign_if got f nd) = Inputs nd"
  by (cases got) simp_all

lemma ObjClass_assign_if:
  "(\<And>v t. ObjClass (f v t) = ObjClass t) \<Longrightarrow> ObjClass (assign_if got f nd) = ObjClass nd"
  by (cases got) simp_all



lemma Inputs_call_LoadObject [simp]:
  "Inputs (fst (call_LoadObject E R m nd fx)) = Inputs nd"
  "ObjClass (fst (call_LoadObject E R m nd fx)) = ObjClass nd"
  by (simp_all add: Inputs_set)

lemma Inputs_LoadObject_or_HandleReference [simp]:
  "Inputs (fst (LoadObject_or_HandleReference E M R m nd fx)) = Inputs nd"
  "ObjClass (fst (LoadObject_or_HandleReference E M R m nd fx)) = ObjClass nd"
  by (simp_all add: LoadObject_or_HandleReference_def Let_def split_beta Inputs_set)

lemma Inputs_Constant [simp]:
  "Inputs (MaterialExpressionConstant P nd) = Inputs nd"
  "ObjClass (MaterialExpressionConstant P nd) = ObjClass nd"
  by (simp_all add: MaterialExpressionConstant_def)

lemma Inputs_Add:
  "Inputs (MaterialExpressionAdd E cm P nd) =
     (Inputs nd)(''A'' \<mapsto> WInput (CreateExpressionInput E P cm ''A''),
                 ''B'' \<mapsto> WInput (CreateExpressionInput E P cm ''B''))"
  by (simp add: MaterialExpressionAdd_def Let_def Inputs_set)

lemma ObjClass_Add [simp]:
  "ObjClass (MaterialExpressionAdd E cm P nd) = ObjClass nd"
  by (simp add: MaterialExpressionAdd_def Let_def)


lemma ObjClass_RVT [simp]:
  "ObjClass (fst (MaterialExpressionRuntimeVirtualTextureSample E cm P nd fx)) = ObjClass nd"
  by (simp add: MaterialExpressionRuntimeVirtualTextureSample_def Let_def split_beta
      fst_assign_if_pair [where g = ObjClass])

lemma Inputs_RVTP [simp]:
  "Inputs (MaterialExpressionRuntimeVirtualTextureSampleParameter P nd) = Inputs nd"
  "ObjClass (MaterialExpressionRuntimeVirtualTextureSampleParameter P nd) = ObjClass nd"
  by (simp_all add: MaterialExpressionRuntimeVirtualTextureSampleParameter_def Let_def)


lemma ObjClass_FunctionCall [simp]:
  "ObjClass (fst (MaterialExpressionMaterialFunctionCall E cm P nd fx)) = ObjClass nd"
  by (simp add: MaterialExpressionMaterialFunctionCall_def Let_def split_beta
      fst_assign_if_pair [where g = ObjClass] ObjClass_assign_if)

lemma Inputs_Collection [simp]:
  "Inputs (fst (MaterialExpressionCollectionParameter E P nd fx)) = Inputs nd"
  "ObjClass (fst (MaterialExpressionCollectionParameter E P nd fx)) = ObjClass nd"
  by (simp_all add: MaterialExpressionCollectionParameter_def Let_def split_beta
      fst_assign_if_pair [where g = Inputs] fst_assign_if_pair [where g = ObjClass])





lemma ObjClass_TextureSample_parent [simp]:
  "ObjClass (TextureSample_parent E cm P nd) = ObjClass nd"
  by (simp add: TextureSample_parent_def Let_def)

lemma Inputs_TextureSampleParameter_parent [simp]:
  "Inputs (TextureSampleParameter_parent E P nd) = Inputs nd"
  "ObjClass (TextureSampleParameter_parent E P nd) = ObjClass nd"
  by (simp_all add: TextureSampleParameter_parent_def Let_def Inputs_assign_if ObjClass_assign_if)

lemma Inputs_Wrapper [simp]:
  "Inputs (fst (MaterialGraphNode_ExpressionWrapper E Parent nd J fx)) = Inputs nd"
  "ObjClass (fst (MaterialGraphNode_ExpressionWrapper E Parent nd J fx)) = ObjClass nd"
  by (simp_all add: MaterialGraphNode_ExpressionWrapper_def Let_def split_beta
      Inputs_assign_if ObjClass_assign_if fst_assign_if_pair [where g = Inputs]
      fst_assign_if_pair [where g = ObjClass] Inputs_set)

lemma wiring_Wrapper [simp]:
  "wiring_of (fst (MaterialGraphNode_ExpressionWrapper E Parent nd J fx)) = wiring_of nd"
  "wiring_of (TextureSampleParameter_parent E P nd) = wiring_of nd"
  by (simp_all add: wiring_of_def)



section \<open>The wire pass as a fold, and the order of its turns\<close>

lemma PropagateExpressions_one:
  "PropagateExpressions E Parent [Name] Exports cm bCheckOuter bSubgraph ed =
     (case map_of Exports Name of
        None \<Rightarrow> Inl Exports_Find_nullptr
      | Some aType \<Rightarrow>
          (case wired_Name Parent Exports cm bCheckOuter Name of
             None \<Rightarrow> Inr ed
           | Some Expr \<Rightarrow>
               PropagateExpression E Parent cm bSubgraph (Type aType)
                 (GetObjectField (Json aType) ''Properties'') Expr ed))"
  by (simp add: wired_Name_def Let_def split: option.split sum.split)

lemma PropagateExpressions_Cons:
  "PropagateExpressions E Parent (Name # rest) Exports cm bCheckOuter bSubgraph ed =
     (case PropagateExpressions E Parent [Name] Exports cm bCheckOuter bSubgraph ed of
        Inl f \<Rightarrow> Inl f
      | Inr ed' \<Rightarrow> PropagateExpressions E Parent rest Exports cm bCheckOuter bSubgraph ed')"
  by (auto simp add: Let_def split: option.split sum.split)















section \<open>The order of the names\<close>












section \<open>The branches do not look at pointers\<close>

lemma PopulateExpressionInput_fields:
  "PopulateExpressionInput J p T =
     \<lparr>Expression = Some p,
      OutputIndex = (case TryGetNumberField J ''OutputIndex'' of Some v \<Rightarrow> v | None \<Rightarrow> 0),
      InputName = (case TryGetStringField J ''InputName'' of Some v \<Rightarrow> v | None \<Rightarrow> NAME_None),
      Mask = (case TryGetNumberField J ''Mask'' of Some v \<Rightarrow> v | None \<Rightarrow> 0),
      MaskR = (case TryGetNumberField J ''MaskR'' of Some v \<Rightarrow> v | None \<Rightarrow> 0),
      MaskG = (case TryGetNumberField J ''MaskG'' of Some v \<Rightarrow> v | None \<Rightarrow> 0),
      MaskB = (case TryGetNumberField J ''MaskB'' of Some v \<Rightarrow> v | None \<Rightarrow> 0),
      MaskA = (case TryGetNumberField J ''MaskA'' of Some v \<Rightarrow> v | None \<Rightarrow> 0)\<rparr>"
  unfolding PopulateExpressionInput_Type [of J p T]
  by (cases "TryGetNumberField J ''OutputIndex''"; cases "TryGetStringField J ''InputName''";
      cases "TryGetNumberField J ''Mask''"; cases "TryGetNumberField J ''MaskR''";
      cases "TryGetNumberField J ''MaskG''"; cases "TryGetNumberField J ''MaskB''";
      cases "TryGetNumberField J ''MaskA''")
     (simp_all add: PopulateExpressionInput_def Type_default_def FExpressionInput_ctor_def Let_def)


lemma rename_ctor [simp]:
  "rename_Input f FExpressionInput_ctor = FExpressionInput_ctor"
  by (simp add: rename_Input_def FExpressionInput_ctor_def)



lemma rename_members [simp]:
  "ObjName (rename_node f nd) = ObjName nd"
  "ObjClass (rename_node f nd) = ObjClass nd"
  "Props (rename_node f nd) = Props nd"
  "Inputs (rename_node f nd) k = map_option (rename_wiring f) (Inputs nd k)"
  "get_Object (rename_node f nd) m = get_Object nd m"
  by (simp_all add: rename_node_def get_Object_def)























section \<open>Two imports of the same records\<close>



lemma rename_Object_empty [simp]:
  "rename_node f (Object_empty Name c) = Object_empty Name c"
  by (simp add: rename_node_def Object_empty_def)











section \<open>Scenario A\<close>

lemma wire_node_kinds:
  "wire_node E Parent cm ''MaterialExpressionAdd'' P nd fx =
     Inr (MaterialGraphNode_ExpressionWrapper E Parent
            (TextureSampleParameter_parent E P
               (TextureSample_parent E cm P (MaterialExpressionAdd E cm P nd))) P fx)"
  "wire_node E Parent cm ''MaterialExpressionConstant'' P nd fx =
     Inr (MaterialGraphNode_ExpressionWrapper E Parent
            (TextureSampleParameter_parent E P
               (TextureSample_parent E cm P (MaterialExpressionConstant P nd))) P fx)"
  by (simp_all add: wire_node_def kind_branches_def)

lemma Inputs_assign_Input_if_found_other:
  "k' \<noteq> k \<Longrightarrow> Inputs (assign_Input_if_found E P cm k nd) k' = Inputs nd k'"
  by (simp add: assign_Input_if_found_def assign_if_def split: option.split)

lemma Inputs_TextureSample_parent_other:
  "k \<notin> {''Coordinates'', ''TextureObject'', ''MipValue'', ''CoordinatesDX'', ''CoordinatesDY'',
         ''AutomaticViewMipBiasValue''} \<Longrightarrow>
   Inputs (TextureSample_parent E cm P nd) k = Inputs nd k"
  by (simp add: TextureSample_parent_def Let_def Inputs_assign_Input_if_found_other)

lemma Props_parents_ConstB:
  "Props (TextureSample_parent E cm P nd) ''ConstB'' = Props nd ''ConstB''"
  "Props (TextureSampleParameter_parent E P nd) ''ConstB'' = Props nd ''ConstB''"
  by (cases "TryGetObjectField P ''ChannelNames''";
      simp add: TextureSample_parent_def TextureSampleParameter_parent_def Let_def
        assign_ChannelName_def assign_if_def split: option.split)+

lemma Props_Wrapper_ConstB:
  "Props (fst (MaterialGraphNode_ExpressionWrapper E Parent nd J fx)) ''ConstB'' = Props nd ''ConstB''"
  by (cases "TryGetArrayField J ''Outputs''"; cases "TryGetStringField J ''SamplerType''";
      cases "TryGetObjectField J ''Texture''")
     (simp_all add: MaterialGraphNode_ExpressionWrapper_def Let_def split_beta)

text \<open>
  C9, as amended. The two records \<open>N1\<close>, of type \<open>MaterialExpressionAdd\<close> with the
  properties \<open>A = {Expression: {ObjectName: ref}}\<close>, \<open>B = {}\<close>, \<open>ConstA = 0\<close>, \<open>ConstB = 5\<close>,
  and \<open>N2\<close>, of type \<open>MaterialExpressionConstant\<close> with \<open>R = 3\<close>, where the host takes
  \<open>ref\<close> as a reference to \<open>N2\<close>, finds a class for both types and ignores neither, and
  \<open>NewObject\<close> returns two different objects: the partition, the create pass and the
  wire pass into a material return; the created map and the heap have the two objects,
  the collection is \<open>N1\<close>, \<open>N2\<close>; input \<open>A\<close> of \<open>N1\<close> points to the object of \<open>N2\<close> with
  output index 0, and \<open>ConstB\<close> of \<open>N1\<close> is 5.
\<close>

theorem ScenarioA:
  fixes E :: "'w Host" and alloc :: "FName \<Rightarrow> 'p"
  assumes "AllJsonObjects E = Records_ScenarioA ref"
    and "GetExportNameOfSubobject E ref = ''N2''"
    and "ExpressionClass_of E ''MaterialExpressionAdd'' \<noteq> None"
    and "ExpressionClass_of E ''MaterialExpressionConstant'' \<noteq> None"
    and "''MaterialExpressionAdd'' \<notin> set (IgnoredExpressions E)"
    and "''MaterialExpressionConstant'' \<notin> set (IgnoredExpressions E)"
    and "alloc ''N1'' \<noteq> alloc ''N2''"
    and "GetClass Parent = UMaterial"
  shows "\<exists>EditorOnlyData Exports names cm ed1 ed2 nd.
     FindEditorOnlyData E ''Material'' aOuter [] [] False = (EditorOnlyData, Exports, names) \<and>
     ConstructExpressions E alloc aOuter names Exports (Editor_empty w) = Inr (cm, ed1) \<and>
     PropagateExpressions E Parent names Exports cm bCheckOuter False ed1 = Inr ed2 \<and>
     dom cm = {''N1'', ''N2''} \<and> dom (Heap ed2) = {alloc ''N1'', alloc ''N2''} \<and>
     ExpressionCollection ed2 = [alloc ''N1'', alloc ''N2''] \<and>
     Heap ed2 (alloc ''N1'') = Some nd \<and>
     Target_of nd ''A'' = Some (Some (alloc ''N2''), 0) \<and> Props nd ''ConstB'' = Some (PNum 5)"
proof -
  from assms(3,4) obtain cA cC where
    cA: "ExpressionClass_of E ''MaterialExpressionAdd'' = Some cA" and
    cC: "ExpressionClass_of E ''MaterialExpressionConstant'' = Some cC"
    by auto
  let ?P1 = "[(''A'', JObj [(''Expression'', JObj [(''ObjectName'', JStr ref)])]),
              (''B'', JObj []), (''ConstA'', JNum 0), (''ConstB'', JNum 5)]"
  let ?J1 = "[(''Name'', JStr ''N1''), (''Type'', JStr ''MaterialExpressionAdd''),
              (''Properties'', JObj ?P1)]"
  let ?J2 = "[(''Name'', JStr ''N2''), (''Type'', JStr ''MaterialExpressionConstant''),
              (''Properties'', JObj [(''R'', JNum 3)])]"
  let ?Exports = "[(''N1'', \<lparr>Type = ''MaterialExpressionAdd'', Outer = aOuter, Json = ?J1\<rparr>),
                   (''N2'', \<lparr>Type = ''MaterialExpressionConstant'', Outer = aOuter, Json = ?J2\<rparr>)]"
  let ?cm = "[''N1'' \<mapsto> alloc ''N1'', ''N2'' \<mapsto> alloc ''N2'']"
  let ?ed1 = "\<lparr>Fx = \<lparr>World = w,
                      Calls = Missing_support E ''MaterialExpressionAdd'' @
                              Missing_support E ''MaterialExpressionConstant''\<rparr>,
               Heap = [alloc ''N1'' \<mapsto> Object_empty ''N1'' cA,
                       alloc ''N2'' \<mapsto> Object_empty ''N2'' cC],
               ExpressionCollection = []\<rparr> :: ('w, 'p) Editor"
  have f: "FindEditorOnlyData E ''Material'' aOuter [] [] False = (None, ?Exports, [''N1'', ''N2''])"
    by (simp add: FindEditorOnlyData_def assms(1) Records_ScenarioA_def json_defs Let_def)
  have t: "created_Type E aOuter ?Exports ''N1'' = Some ''MaterialExpressionAdd''"
    "created_Type E aOuter ?Exports ''N2'' = Some ''MaterialExpressionConstant''"
    using assms(5,6) by (simp_all add: created_Type_def)
  have c: "ConstructExpressions E alloc aOuter [''N1'', ''N2''] ?Exports (Editor_empty w) =
           Inr (?cm, ?ed1)"
    by (simp add: ConstructExpressions_def ConstructExpressions_loop_Cons t cA cC Editor_empty_def
        del: ConstructExpressions_loop.simps(2))
  let ?o1 = "Object_empty ''N1'' cA :: 'p UMaterialExpression"
  let ?o2 = "Object_empty ''N2'' cC :: 'p UMaterialExpression"
  let ?r1 = "MaterialGraphNode_ExpressionWrapper E Parent
               (TextureSampleParameter_parent E ?P1
                  (TextureSample_parent E ?cm ?P1 (MaterialExpressionAdd E ?cm ?P1 ?o1)))
               ?P1 (Fx ?ed1)"
  let ?e1 = "\<lparr>Fx = snd ?r1, Heap = (Heap ?ed1)(alloc ''N1'' \<mapsto> fst ?r1),
              ExpressionCollection = [alloc ''N1'']\<rparr> :: ('w, 'p) Editor"
  let ?P2 = "[(''R'', JNum 3)]"
  let ?r2 = "MaterialGraphNode_ExpressionWrapper E Parent
               (TextureSampleParameter_parent E ?P2
                  (TextureSample_parent E ?cm ?P2 (MaterialExpressionConstant ?P2 ?o2)))
               ?P2 (Fx ?e1)"
  let ?e2 = "\<lparr>Fx = snd ?r2, Heap = (Heap ?e1)(alloc ''N2'' \<mapsto> fst ?r2),
              ExpressionCollection = [alloc ''N1'', alloc ''N2'']\<rparr> :: ('w, 'p) Editor"
  have n1: "wired_Name Parent ?Exports ?cm bCheckOuter ''N1'' = Some (alloc ''N1'')"
    and n2: "wired_Name Parent ?Exports ?cm bCheckOuter ''N2'' = Some (alloc ''N2'')"
    by (simp_all add: wired_Name_def json_defs)
  have s1: "PropagateExpressions E Parent [''N1''] ?Exports ?cm bCheckOuter False ?ed1 = Inr ?e1"
    unfolding PropagateExpressions_one n1
    using assms(7)
    by (simp add: PropagateExpression_wire_node wire_node_kinds json_defs attach_def assms(8))
  have s2: "PropagateExpressions E Parent [''N2''] ?Exports ?cm bCheckOuter False ?e1 = Inr ?e2"
    unfolding PropagateExpressions_one n2
    using assms(7)
    by (simp add: PropagateExpression_wire_node wire_node_kinds json_defs attach_def assms(8))
  have p: "PropagateExpressions E Parent [''N1'', ''N2''] ?Exports ?cm bCheckOuter False ?ed1 =
           Inr ?e2"
    unfolding PropagateExpressions_Cons [of E Parent "''N1''" "[''N2'']"] s1
    by (simp only: sum.case s2)
  have h: "dom (Heap ?e2) = {alloc ''N1'', alloc ''N2''}"
    by (auto split: if_splits)
  have g: "Heap ?e2 (alloc ''N1'') = Some (fst ?r1)"
    using assms(7) by simp
  have "CreateExpressionInput E ?P1 ?cm ''A'' =
          PopulateExpressionInput [(''Expression'', JObj [(''ObjectName'', JStr ref)])]
            (alloc ''N2'') Type_default"
    by (simp add: CreateExpressionInput_def GetExpressionName_def OverrideParameterName_default_def
        json_defs assms(2))
  then have a: "Target_of (fst ?r1) ''A'' = Some (Some (alloc ''N2''), 0)"
    by (simp add: Target_of_def Inputs_TextureSample_parent_other Inputs_Add
        PopulateExpressionInput_fields json_defs)
  have k: "Props (fst ?r1) ''ConstB'' = Some (PNum 5)"
    by (simp add: Props_Wrapper_ConstB Props_parents_ConstB MaterialExpressionAdd_def Let_def
        json_defs)
  have d: "dom ?cm = {''N1'', ''N2''}"
    by (simp add: insert_commute)
  from f c p d h g a k show ?thesis
    by (intro exI [of _ None] exI [of _ ?Exports] exI [of _ "[''N1'', ''N2'']"] exI [of _ ?cm]
        exI [of _ ?ed1] exI [of _ ?e2] exI [of _ "fst ?r1"]) simp
qed

text \<open>The example host, with a reference in the form its \<open>GetExportNameOfSubobject\<close> reads.\<close>

theorem ScenarioA_witness:
  "AllJsonObjects Host_ScenarioA = Records_ScenarioA Ref_ScenarioA \<and>
   GetExportNameOfSubobject Host_ScenarioA Ref_ScenarioA = ''N2'' \<and>
   ExpressionClass_of Host_ScenarioA ''MaterialExpressionAdd'' \<noteq> None \<and>
   ExpressionClass_of Host_ScenarioA ''MaterialExpressionConstant'' \<noteq> None \<and>
   ''MaterialExpressionAdd'' \<notin> set (IgnoredExpressions Host_ScenarioA) \<and>
   ''MaterialExpressionConstant'' \<notin> set (IgnoredExpressions Host_ScenarioA) \<and>
   GetClass Parent_example = UMaterial \<and>
   (\<exists>EditorOnlyData Exports names cm ed1 ed2 nd.
      FindEditorOnlyData Host_ScenarioA ''Material'' ''M_Example'' [] [] False =
        (EditorOnlyData, Exports, names) \<and>
      ConstructExpressions Host_ScenarioA (\<lambda>n. n) ''M_Example'' names Exports (Editor_empty []) =
        Inr (cm, ed1) \<and>
      PropagateExpressions Host_ScenarioA Parent_example names Exports cm True False ed1 = Inr ed2 \<and>
      dom cm = {''N1'', ''N2''} \<and> dom (Heap ed2) = {''N1'', ''N2''} \<and>
      ExpressionCollection ed2 = [''N1'', ''N2''] \<and> Heap ed2 ''N1'' = Some nd \<and>
      Target_of nd ''A'' = Some (Some ''N2'', 0) \<and> Props nd ''ConstB'' = Some (PNum 5))"
proof -
  have a: "AllJsonObjects Host_ScenarioA = Records_ScenarioA Ref_ScenarioA"
    and i: "''MaterialExpressionAdd'' \<notin> set (IgnoredExpressions Host_ScenarioA)"
      "''MaterialExpressionConstant'' \<notin> set (IgnoredExpressions Host_ScenarioA)"
    by (simp_all add: Host_ScenarioA_def Host_example_def)
  have g: "GetExportNameOfSubobject Host_ScenarioA Ref_ScenarioA = ''N2''"
    by (simp add: Host_ScenarioA_def Host_example_def Ref_ScenarioA_def
        GetExportNameOfSubobject_example_def Let_def)
  have c: "ExpressionClass_of Host_ScenarioA ''MaterialExpressionAdd'' \<noteq> None"
    "ExpressionClass_of Host_ScenarioA ''MaterialExpressionConstant'' \<noteq> None"
    by (simp_all add: ExpressionClass_of_def Host_ScenarioA_def Host_example_def)
  have n: "(\<lambda>n :: FName. n) ''N1'' \<noteq> (\<lambda>n. n) ''N2''"
    by simp
  have u: "GetClass Parent_example = UMaterial"
    by (simp add: Parent_example_def)
  from ScenarioA [where alloc = "\<lambda>n. n" and aOuter = "''M_Example''" and w = "[]"
      and bCheckOuter = True, OF a g c i n u]
    a g c i u
  show ?thesis
    by simp
qed

lemma Host_ScenarioA_literal_simps:
  "AllJsonObjects Host_ScenarioA_literal = Records_ScenarioA_literal"
  "IgnoredExpressions Host_ScenarioA_literal = [''MaterialExpressionComposite'', ''MaterialExpressionPinBase'']"
  "Expressions Host_ScenarioA_literal = [''Add'', ''Constant'']"
  "GetExportNameOfSubobject Host_ScenarioA_literal = (\<lambda>PackageIndex. PackageIndex)"
  "FindObject_UClass Host_ScenarioA_literal = (\<lambda>path. True)"
  "IsA Host_ScenarioA_literal ''/Script/Engine.Add'' = (\<lambda>base. False)"
  "IsA Host_ScenarioA_literal ''/Script/Engine.Constant'' = (\<lambda>base. False)"
  by (simp_all add: Host_ScenarioA_literal_def Host_example_def fun_eq_iff)

text \<open>
  C9 as stated fails on the records as the specification writes them, also for a host
  that finds a class for \<open>Add\<close> and \<open>Constant\<close>: no branch of \<open>PropagateExpressions\<close> is for
  the type \<open>Add\<close>, and \<open>GetExpressionName\<close> finds no \<open>Expression\<close> in \<open>A\<close>. Both objects are
  created; input \<open>A\<close> and \<open>ConstB\<close> of \<open>N1\<close> are not assigned.
\<close>

theorem ScenarioA_literal_counterexample:
  "\<exists>EditorOnlyData Exports names cm ed1 ed2 nd.
     FindEditorOnlyData Host_ScenarioA_literal ''Material'' ''M_Example'' [] [] False =
       (EditorOnlyData, Exports, names) \<and>
     ConstructExpressions Host_ScenarioA_literal (\<lambda>n. n) ''M_Example'' names Exports
       (Editor_empty []) = Inr (cm, ed1) \<and>
     PropagateExpressions Host_ScenarioA_literal Parent_example names Exports cm True False ed1 =
       Inr ed2 \<and>
     dom cm = {''N1'', ''N2''} \<and> Heap ed2 ''N1'' = Some nd \<and>
     Target_of nd ''A'' = None \<and> Props nd ''ConstB'' = None"
  by (simp add: Host_ScenarioA_literal_simps Records_ScenarioA_literal_def pass_defs json_defs
      branch_defs member_defs Editor_empty_def Parent_example_def Target_of_def Let_def
      insert_commute)

end
